theory Spec2Isabelle
  imports Complex_Main "HOL-Library.AList"
begin

section \<open>Data model\<close>

text \<open>
  The scoreboard keeps, for every team, book counts per category. A JavaScript object
  with string keys is an association list in insertion order (the order in which
  \<^verbatim>\<open>Object.keys\<close> enumerates it); its keys are distinct. Counts are integers.
  Point weights are \<^verbatim>\<open>72, 36, 2, 1, 0.5, 0.25\<close>: every product and sum of the
  scoring code is a multiple of one quarter, which a double holds exactly below
  \<open>2^53\<close>, so numbers with a fractional part are rationals here.
\<close>

type_synonym BookCounts = "(string \<times> int) list"

text \<open>
  A dated history entry is the object \<^verbatim>\<open>{ date, ...books }\<close>: a date string and the
  counts spread beside it. The keys of a counts object are category codes; \<^verbatim>\<open>date\<close>
  is not among them.
\<close>

record DatedEntry =
  date :: string
  counts :: BookCounts

text \<open>
  The persisted book field has two shapes: the legacy flat object, and the array of
  dated entries (\<^verbatim>\<open>Array.isArray(booksData)\<close>).
\<close>

datatype BooksData = Flat BookCounts | History "DatedEntry list"

record Stats =
  totalBooks :: int
  totalPoints :: rat

subsection \<open>The constant tables\<close>

definition BOOK_VALUES :: "(string \<times> rat) list" where
  "BOOK_VALUES =
     [(''Bhagavatam'', 72), (''CC'', 36), (''MBB'', 2), (''BB'', 1), (''MB'', 1 / 2), (''SB'', 1 / 4)]"

definition BOOK_EQUIV :: "(string \<times> int) list" where
  "BOOK_EQUIV =
     [(''Bhagavatam'', 18), (''CC'', 9), (''MBB'', 1), (''BB'', 1), (''MB'', 1), (''SB'', 1)]"

text \<open>\<^verbatim>\<open>obj[key] || 0\<close> on a table of numbers: a missing key reads as 0.\<close>

definition orZero :: "(string \<times> 'a::zero) list \<Rightarrow> string \<Rightarrow> 'a" where
  "orZero obj key = (case map_of obj key of None \<Rightarrow> 0 | Some v \<Rightarrow> v)"

section \<open>Stats calculation (\<^verbatim>\<open>calculateStats\<close>, dated version)\<close>

text \<open>
  The body of the inner \<^verbatim>\<open>forEach\<close>: one category of one counts object is added to
  the running totals.
\<close>

definition addBook :: "BookCounts \<Rightarrow> Stats \<Rightarrow> string \<Rightarrow> Stats" where
  "addBook bookCounts s bookType =
     (let count = orZero bookCounts bookType
      in \<lparr>totalBooks = totalBooks s + count * orZero BOOK_EQUIV bookType,
          totalPoints = totalPoints s + of_int count * orZero BOOK_VALUES bookType\<rparr>)"

text \<open>\<^verbatim>\<open>Object.keys(BOOK_VALUES).forEach(...)\<close> over one counts object.\<close>

definition addCounts :: "Stats \<Rightarrow> BookCounts \<Rightarrow> Stats" where
  "addCounts s bookCounts = foldl (addBook bookCounts) s (map fst BOOK_VALUES)"

text \<open>
  The date argument is \<^verbatim>\<open>null\<close> (\<open>None\<close>) or a string. The test
  \<^verbatim>\<open>specificDate ? ... : ...\<close> is JavaScript truthiness: \<^verbatim>\<open>null\<close> and the empty
  string are both falsy.
\<close>

definition truthy :: "string option \<Rightarrow> bool" where
  "truthy d = (case d of None \<Rightarrow> False | Some s \<Rightarrow> s \<noteq> [])"

definition zeroStats :: Stats where
  "zeroStats = \<lparr>totalBooks = 0, totalPoints = 0\<rparr>"

definition calculateStats :: "BooksData \<Rightarrow> string option \<Rightarrow> Stats" where
  "calculateStats booksData specificDate =
     (case booksData of
        Flat bookCounts \<Rightarrow> addCounts zeroStats bookCounts
      | History entries \<Rightarrow>
          (let filteredEntries =
                 (if truthy specificDate
                  then filter (\<lambda>entry. Some (date entry) = specificDate) entries
                  else entries)
           in foldl (\<lambda>s entry. addCounts s (counts entry)) zeroStats filteredEntries))"

section \<open>Teams and the aggregated view\<close>

text \<open>
  A team document as the store delivers it. \<^verbatim>\<open>books\<close> and \<^verbatim>\<open>booksHistory\<close> may be
  absent (\<open>None\<close>); \<^verbatim>\<open>booksHistory\<close>, when present, is normally an array, and the code
  also provides for a non-array object there.
\<close>

record Team =
  teamId :: string
  name :: string
  leader :: string
  books :: "BookCounts option"
  booksHistory :: "BooksData option"

text \<open>
  The object built by \<^verbatim>\<open>getTeamsWithStats\<close>:
  \<^verbatim>\<open>{ ...team, books, booksHistory, ...stats }\<close>. The two overriding fields carry a
  prime; the statistics are the fields of \<open>Stats\<close>.
\<close>

record TeamWithStats = Stats +
  team :: Team
  books' :: BookCounts
  booksHistory' :: "DatedEntry list"

text \<open>The component state read by the functions below.\<close>

record AppState =
  teams :: "Team list"
  searchTerm :: string
  filterLeader :: string
  sortBy :: string
  selectedDate :: string

text \<open>\<^verbatim>\<open>team.booksHistory || team.books || {}\<close>: objects and arrays are truthy.\<close>

definition booksDataOf :: "Team \<Rightarrow> BooksData" where
  "booksDataOf t =
     (case booksHistory t of
        Some h \<Rightarrow> h
      | None \<Rightarrow> (case books t of Some b \<Rightarrow> Flat b | None \<Rightarrow> Flat []))"

text \<open>
  The body of the \<^verbatim>\<open>map\<close> in \<^verbatim>\<open>getTeamsWithStats\<close>. For a flat object both branches
  of the source build the same result (whether or not it has a truthy \<^verbatim>\<open>date\<close>).
\<close>

definition withStats :: "string \<Rightarrow> string option \<Rightarrow> Team \<Rightarrow> TeamWithStats" where
  "withStats selDate dateFilter t =
     (let booksData = booksDataOf t;
          stats = calculateStats booksData dateFilter
      in case booksData of
           Flat bc \<Rightarrow>
             \<lparr>totalBooks = totalBooks stats, totalPoints = totalPoints stats, team = t,
              books' = bc, booksHistory' = [\<lparr>date = selDate, counts = bc\<rparr>]\<rparr>
         | History h \<Rightarrow>
             \<lparr>totalBooks = totalBooks stats, totalPoints = totalPoints stats, team = t,
              books' = [], booksHistory' = h\<rparr>)"

definition getTeamsWithStats :: "AppState \<Rightarrow> string option \<Rightarrow> TeamWithStats list" where
  "getTeamsWithStats st dateFilter = map (withStats (selectedDate st) dateFilter) (teams st)"

subsection \<open>Filtering\<close>

text \<open>
  \<^verbatim>\<open>String.prototype.toLowerCase\<close> and \<^verbatim>\<open>includes\<close> (here \<open>includesStr\<close>)
  belong to the language. Strings
  are byte lists here, and lower-casing maps the ASCII capitals only.
\<close>

definition toLowerChar :: "char \<Rightarrow> char" where
  "toLowerChar c =
     (let n = (of_char c :: nat) in if 65 \<le> n \<and> n \<le> 90 then char_of (n + 32) else c)"

definition toLowerCase :: "string \<Rightarrow> string" where
  "toLowerCase s = map toLowerChar s"

fun startsWith :: "string \<Rightarrow> string \<Rightarrow> bool" where
  "startsWith s [] = True"
| "startsWith [] (y # ys) = False"
| "startsWith (x # xs) (y # ys) = (x = y \<and> startsWith xs ys)"

fun includesStr :: "string \<Rightarrow> string \<Rightarrow> bool" where
  "includesStr [] sub = (sub = [])"
| "includesStr (x # xs) sub = (startsWith (x # xs) sub \<or> includesStr xs sub)"

text \<open>The two filter steps of \<^verbatim>\<open>getFilteredTeams\<close>, each with its guard.\<close>

definition searchFilter :: "string \<Rightarrow> TeamWithStats list \<Rightarrow> TeamWithStats list" where
  "searchFilter srch filtered =
     (if srch \<noteq> []
      then filter (\<lambda>t. includesStr (toLowerCase (name (team t))) (toLowerCase srch)) filtered
      else filtered)"

definition leaderFilter :: "string \<Rightarrow> TeamWithStats list \<Rightarrow> TeamWithStats list" where
  "leaderFilter fl filtered =
     (if fl \<noteq> ''all'' then filter (\<lambda>t. leader (team t) = fl) filtered else filtered)"

subsection \<open>Sorting\<close>

text \<open>
  \<^verbatim>\<open>Array.prototype.sort(comparefn)\<close> belongs to the language: ECMAScript (2019 and
  later) requires a stable sort, which places \<open>a\<close> before \<open>b\<close> when
  \<^verbatim>\<open>comparefn(a, b) < 0\<close> and keeps the input order when it is 0. It is modelled by a
  stable insertion sort driven by the comparator.
\<close>

fun insertBy :: "('a \<Rightarrow> 'a \<Rightarrow> rat) \<Rightarrow> 'a \<Rightarrow> 'a list \<Rightarrow> 'a list" where
  "insertBy cmp x [] = [x]"
| "insertBy cmp x (y # ys) = (if cmp x y \<le> 0 then x # y # ys else y # insertBy cmp x ys)"

definition sortWith :: "('a \<Rightarrow> 'a \<Rightarrow> rat) \<Rightarrow> 'a list \<Rightarrow> 'a list" where
  "sortWith cmp xs = foldr (insertBy cmp) xs []"

text \<open>
  The comparator of \<^verbatim>\<open>getFilteredTeams\<close>. It reads only the two statistics, so it is
  stated for every record that carries them.
\<close>

definition compareTeams :: "string \<Rightarrow> 'a Stats_scheme \<Rightarrow> 'a Stats_scheme \<Rightarrow> rat" where
  "compareTeams key a b =
     (if key = ''points'' then totalPoints b - totalPoints a
      else of_int (totalBooks b - totalBooks a))"

definition sortTeams :: "string \<Rightarrow> 'a Stats_scheme list \<Rightarrow> 'a Stats_scheme list" where
  "sortTeams key filtered = sortWith (compareTeams key) filtered"

text \<open>The statistic selected by the sort key.\<close>

definition selectedStat :: "string \<Rightarrow> 'a Stats_scheme \<Rightarrow> rat" where
  "selectedStat key t = (if key = ''points'' then totalPoints t else of_int (totalBooks t))"

definition getFilteredTeams :: "AppState \<Rightarrow> TeamWithStats list" where
  "getFilteredTeams st =
     sortTeams (sortBy st)
       (leaderFilter (filterLeader st)
         (searchFilter (searchTerm st)
           (getTeamsWithStats st (Some (selectedDate st)))))"

section \<open>CSV export\<close>

text \<open>Decimal rendering of the integers that \<^verbatim>\<open>join\<close> converts to strings.\<close>

definition digitChar :: "nat \<Rightarrow> char" where
  "digitChar n = ''0123456789'' ! (n mod 10)"

fun showNat :: "nat \<Rightarrow> string" where
  "showNat n = (if n < 10 then [digitChar n] else showNat (n div 10) @ [digitChar (n mod 10)])"

declare showNat.simps [simp del]

definition showInt :: "int \<Rightarrow> string" where
  "showInt i = (if i < 0 then CHR ''-'' # showNat (nat (- i)) else showNat (nat i))"

text \<open>
  \<^verbatim>\<open>Number.prototype.toFixed(2)\<close>: the integer \<open>n\<close> nearest to \<open>100 * |x|\<close> (the larger
  one at a tie), printed with a point before its last two digits, after a minus sign
  when \<open>x < 0\<close>.
\<close>

definition toFixed2 :: "rat \<Rightarrow> string" where
  "toFixed2 x =
     (let n = nat \<lfloor>\<bar>x\<bar> * 100 + 1 / 2\<rfloor>;
          body = showNat (n div 100) @ [CHR ''.'', digitChar (n mod 100 div 10), digitChar (n mod 10)]
      in if x < 0 then CHR ''-'' # body else body)"

text \<open>\<^verbatim>\<open>Array.prototype.join\<close> on an array of strings.\<close>

fun join :: "string \<Rightarrow> string list \<Rightarrow> string" where
  "join sep [] = []"
| "join sep [x] = x"
| "join sep (x # y # ys) = x @ sep @ join sep (y # ys)"

definition headers :: "string list" where
  "headers = [''Rank'', ''Team Name'', ''BV Leader'', ''Bhagavatam'', ''CC'', ''MBB'', ''BB'',
              ''MB'', ''SB'', ''Total Books'', ''Total Points'']"

text \<open>One data row: the callback of \<^verbatim>\<open>teamsWithStats.map((team, idx) => [...])\<close>.\<close>

definition csvRow :: "nat \<Rightarrow> TeamWithStats \<Rightarrow> string list" where
  "csvRow idx t =
     [showNat (idx + 1), name (team t), leader (team t),
      showInt (orZero (books' t) ''Bhagavatam''), showInt (orZero (books' t) ''CC''),
      showInt (orZero (books' t) ''MBB''), showInt (orZero (books' t) ''BB''),
      showInt (orZero (books' t) ''MB''), showInt (orZero (books' t) ''SB''),
      showInt (totalBooks t), toFixed2 (totalPoints t)]"

definition csvRows :: "AppState \<Rightarrow> string list list" where
  "csvRows st = map (\<lambda>(idx, t). csvRow idx t) (enumerate 0 (getFilteredTeams st))"

text \<open>\<^verbatim>\<open>[headers, ...rows].map(row => row.join(','))\<close>: the lines of the file.\<close>

definition csvLines :: "AppState \<Rightarrow> string list" where
  "csvLines st = map (join '','') (headers # csvRows st)"

definition exportToCSV :: "AppState \<Rightarrow> string" where
  "exportToCSV st = join [CHR 0x0A] (csvLines st)"

section \<open>Admin operations\<close>

subsection \<open>Per-category adjustment (\<^verbatim>\<open>handleUpdateBookCount\<close>)\<close>

text \<open>
  The team list is the local copy that the optimistic update rewrites; the same
  \<^verbatim>\<open>newBooks\<close> object is then sent to the store. An unknown team id returns at once.
  \<open>booksOrEmpty\<close> is \<^verbatim>\<open>team.books || {}\<close>.
\<close>

definition booksOrEmpty :: "Team \<Rightarrow> BookCounts" where
  "booksOrEmpty t = (case books t of None \<Rightarrow> [] | Some b \<Rightarrow> b)"

definition handleUpdateBookCount :: "Team list \<Rightarrow> string \<Rightarrow> string \<Rightarrow> int \<Rightarrow> Team list" where
  "handleUpdateBookCount ts tid bookType delta =
     (case find (\<lambda>t. teamId t = tid) ts of
        None \<Rightarrow> ts
      | Some tm \<Rightarrow>
          (let currentBooks = booksOrEmpty tm;
               newCount = max 0 (orZero currentBooks bookType + delta);
               newBooks = AList.update bookType newCount currentBooks
           in map (\<lambda>t. if teamId t = tid then t\<lparr>books := Some newBooks\<rparr> else t) ts))"

text \<open>The invariant of the data model: no stored count of a team is negative.\<close>

definition countsNonNegative :: "Team \<Rightarrow> bool" where
  "countsNonNegative t =
     (case books t of None \<Rightarrow> True | Some b \<Rightarrow> list_all (\<lambda>(k, v). 0 \<le> v) b)"

subsection \<open>Bulk score update by date (\<^verbatim>\<open>AdminUpdateScoreModal onUpdate\<close>)\<close>

fun findIndex :: "('a \<Rightarrow> bool) \<Rightarrow> 'a list \<Rightarrow> nat option" where
  "findIndex P [] = None"
| "findIndex P (x # xs) = (if P x then Some 0 else map_option Suc (findIndex P xs))"

text \<open>
  The history the update starts from: the stored array, the empty array when the field
  is absent, or, for a non-array value, the single entry
  \<^verbatim>\<open>{ date: today, ...team.books }\<close>.
\<close>

definition startHistory :: "string \<Rightarrow> Team \<Rightarrow> DatedEntry list" where
  "startHistory today tm =
     (case booksHistory tm of
        None \<Rightarrow> []
      | Some (History h) \<Rightarrow> h
      | Some (Flat x) \<Rightarrow>
          [\<lparr>date = today, counts = booksOrEmpty tm\<rparr>])"

text \<open>Find the entry of this date and overwrite it, or push a new one.\<close>

definition upsertEntry :: "DatedEntry list \<Rightarrow> string \<Rightarrow> BookCounts \<Rightarrow> DatedEntry list" where
  "upsertEntry h d bs =
     (case findIndex (\<lambda>entry. date entry = d) h of
        Some existingIndex \<Rightarrow> h[existingIndex := \<lparr>date = d, counts = bs\<rparr>]
      | None \<Rightarrow> h @ [\<lparr>date = d, counts = bs\<rparr>])"

text \<open>
  \<^verbatim>\<open>teams.find(...)\<close> returns the first team object with the id; an assignment into
  that object changes the first match of the list and nothing else.
\<close>

fun updateFirst :: "('a \<Rightarrow> bool) \<Rightarrow> ('a \<Rightarrow> 'a) \<Rightarrow> 'a list \<Rightarrow> 'a list" where
  "updateFirst P f [] = []"
| "updateFirst P f (x # xs) = (if P x then f x # xs else x # updateFirst P f xs)"

text \<open>
  The loop works on two lists: \<^verbatim>\<open>teams\<close> as the handler captured it, which every
  iteration reads, and the documents of the store, which \<^verbatim>\<open>updateTeam\<close> writes. The
  captured list is not refreshed during the loop. When \<^verbatim>\<open>team.booksHistory\<close> is an
  array, the indexed assignment and \<^verbatim>\<open>push\<close> change that array in place, so the
  captured team carries the new history afterwards; in the other two cases a fresh
  array is built and the captured team stays as it was.
\<close>

record UpdateState =
  captured :: "Team list"
  stored :: "Team list"

text \<open>
  One iteration of the loop over \<^verbatim>\<open>updates\<close>: an unknown team is skipped
  (\<^verbatim>\<open>continue\<close>); otherwise \<^verbatim>\<open>updateTeam(teamId, { booksHistory, books })\<close> stores the
  new history and the new counts in the document of that id.
\<close>

definition onUpdateOne :: "string \<Rightarrow> UpdateState \<Rightarrow> string \<times> string \<times> BookCounts \<Rightarrow> UpdateState" where
  "onUpdateOne today s u =
     (case u of (tid, d, bs) \<Rightarrow>
        (case find (\<lambda>t. teamId t = tid) (captured s) of
           None \<Rightarrow> s
         | Some tm \<Rightarrow>
             (let h = upsertEntry (startHistory today tm) d bs
              in \<lparr>captured =
                    (case booksHistory tm of
                       Some (History old) \<Rightarrow>
                         updateFirst (\<lambda>t. teamId t = tid)
                           (\<lambda>t. t\<lparr>booksHistory := Some (History h)\<rparr>) (captured s)
                     | Some (Flat x) \<Rightarrow> captured s
                     | None \<Rightarrow> captured s),
                  stored =
                    map (\<lambda>t. if teamId t = tid
                             then t\<lparr>booksHistory := Some (History h), books := Some bs\<rparr>
                             else t) (stored s)\<rparr>)))"

text \<open>
  The whole loop, started with the store and the captured list in step; the result is
  the store after the last iteration.
\<close>

definition onUpdate :: "string \<Rightarrow> Team list \<Rightarrow> (string \<times> string \<times> BookCounts) list \<Rightarrow> Team list" where
  "onUpdate today ts updates =
     stored (foldl (onUpdateOne today) \<lparr>captured = ts, stored = ts\<rparr> updates)"

text \<open>At most one history entry per distinct date.\<close>

definition oneEntryPerDate :: "Team \<Rightarrow> bool" where
  "oneEntryPerDate t =
     (case booksHistory t of Some (History h) \<Rightarrow> distinct (map date h) | Some (Flat x) \<Rightarrow> True | None \<Rightarrow> True)"

section \<open>The revision of the scoreboard in \<^verbatim>\<open>src/App.js\<close>\<close>

text \<open>
  \<^verbatim>\<open>src/App.js\<close> holds another revision of \<^verbatim>\<open>calculateStats\<close>,
  \<^verbatim>\<open>getTeamsWithStats\<close> and \<^verbatim>\<open>exportToCSV\<close>, with the same tables and the same
  filter and sort code. Its functions carry the suffix \<open>_AppJs\<close>. Its totals can be
  \<^verbatim>\<open>NaN\<close>, so its numbers have that extra value.
\<close>

datatype jsnum = Num rat | NaN

fun plusNum :: "jsnum \<Rightarrow> jsnum \<Rightarrow> jsnum" where
  "plusNum (Num a) (Num b) = Num (a + b)"
| "plusNum (Num a) NaN = NaN"
| "plusNum NaN y = NaN"

text \<open>
  \<^verbatim>\<open>count * BOOK_VALUES[bookType]\<close>, with no default: for a key outside the table the
  weight is \<^verbatim>\<open>undefined\<close> and the product is \<^verbatim>\<open>NaN\<close>.
\<close>

definition timesValue :: "int \<Rightarrow> string \<Rightarrow> jsnum" where
  "timesValue count bookType =
     (case map_of BOOK_VALUES bookType of None \<Rightarrow> NaN | Some w \<Rightarrow> Num (of_int count * w))"

record Stats_AppJs =
  totalBooks_AppJs :: int
  totalPoints_AppJs :: jsnum

text \<open>The loop runs over \<^verbatim>\<open>Object.keys(books)\<close>, the keys of the input.\<close>

definition calculateStats_AppJs :: "BookCounts \<Rightarrow> Stats_AppJs" where
  "calculateStats_AppJs bks =
     foldl (\<lambda>s bookType.
              (let count = orZero bks bookType
               in \<lparr>totalBooks_AppJs = totalBooks_AppJs s + count,
                   totalPoints_AppJs = plusNum (totalPoints_AppJs s) (timesValue count bookType)\<rparr>))
           \<lparr>totalBooks_AppJs = 0, totalPoints_AppJs = Num 0\<rparr> (map fst bks)"

datatype jsError = TypeError

text \<open>
  \<^verbatim>\<open>teams.map(team => ({ ...team, ...calculateStats(team.books) }))\<close>; a team without
  \<^verbatim>\<open>books\<close> makes \<^verbatim>\<open>Object.keys\<close> throw.
\<close>

fun getTeamsWithStats_AppJs :: "Team list \<Rightarrow> jsError + (Team \<times> Stats_AppJs) list" where
  "getTeamsWithStats_AppJs [] = Inr []"
| "getTeamsWithStats_AppJs (t # ts) =
     (case books t of
        None \<Rightarrow> Inl TypeError
      | Some b \<Rightarrow>
          (case getTeamsWithStats_AppJs ts of
             Inl e \<Rightarrow> Inl e
           | Inr r \<Rightarrow> Inr ((t, calculateStats_AppJs b) # r)))"

text \<open>
  The cells of a row before \<^verbatim>\<open>join\<close> turns them into text: \<^verbatim>\<open>undefined\<close> becomes
  the empty string, a number its decimal form (exact here for numbers with at most two
  decimals, which the multiples of one quarter are).
\<close>

datatype cell = CStr string | CNum jsnum | CUndefined

definition numberToString :: "jsnum \<Rightarrow> string" where
  "numberToString v =
     (case v of
        NaN \<Rightarrow> ''NaN''
      | Num x \<Rightarrow>
          (let n = nat \<lfloor>\<bar>x\<bar> * 100\<rfloor>;
               f = n mod 100;
               frac = (if f = 0 then []
                       else if f mod 10 = 0 then [CHR ''.'', digitChar (f div 10)]
                       else [CHR ''.'', digitChar (f div 10), digitChar (f mod 10)]);
               body = showNat (n div 100) @ frac
           in if x < 0 then CHR ''-'' # body else body))"

definition cellToString :: "cell \<Rightarrow> string" where
  "cellToString c = (case c of CStr s \<Rightarrow> s | CNum v \<Rightarrow> numberToString v | CUndefined \<Rightarrow> [])"

text \<open>\<^verbatim>\<open>team.books.X\<close>, with no default.\<close>

definition bookCell :: "Team \<Rightarrow> string \<Rightarrow> cell" where
  "bookCell t k =
     (case map_of (booksOrEmpty t) k of None \<Rightarrow> CUndefined | Some c \<Rightarrow> CNum (Num (of_int c)))"

definition csvRow_AppJs :: "nat \<Rightarrow> Team \<times> Stats_AppJs \<Rightarrow> cell list" where
  "csvRow_AppJs idx ts =
     (case ts of (t, stats) \<Rightarrow>
        [CNum (Num (of_nat (idx + 1))), CStr (name t), CStr (leader t),
         bookCell t ''Bhagavatam'', bookCell t ''CC'', bookCell t ''MBB'', bookCell t ''BB'',
         bookCell t ''MB'', bookCell t ''SB'',
         CNum (Num (of_int (totalBooks_AppJs stats))), CNum (totalPoints_AppJs stats)])"

text \<open>
  \<^verbatim>\<open>exportToCSV\<close> of \<^verbatim>\<open>src/App.js\<close>: the rows come from \<^verbatim>\<open>getTeamsWithStats()\<close>,
  that is from all teams in store order, and the points cell is the number itself.
\<close>

definition csvLines_AppJs :: "AppState \<Rightarrow> jsError + string list" where
  "csvLines_AppJs st =
     (case getTeamsWithStats_AppJs (teams st) of
        Inl e \<Rightarrow> Inl e
      | Inr teamsWithStats \<Rightarrow>
          Inr (map (join '','')
                (headers # map (\<lambda>(idx, ts). map cellToString (csvRow_AppJs idx ts))
                              (enumerate 0 teamsWithStats))))"

definition exportToCSV_AppJs :: "AppState \<Rightarrow> jsError + string" where
  "exportToCSV_AppJs st =
     (case csvLines_AppJs st of Inl e \<Rightarrow> Inl e | Inr ls \<Rightarrow> Inr (join [CHR 0x0A] ls))"

text \<open>
  \<^verbatim>\<open>getFilteredTeams\<close> of \<^verbatim>\<open>src/App.js\<close> has the same filter and sort code, over these
  totals. A difference with a \<^verbatim>\<open>NaN\<close> operand is \<^verbatim>\<open>NaN\<close>, and the language's sort
  takes a comparator result of \<^verbatim>\<open>NaN\<close> as \<open>+0\<close>.
\<close>

fun minusNum :: "jsnum \<Rightarrow> jsnum \<Rightarrow> jsnum" where
  "minusNum (Num a) (Num b) = Num (a - b)"
| "minusNum (Num a) NaN = NaN"
| "minusNum NaN y = NaN"

definition compareTeams_AppJs :: "string \<Rightarrow> Team \<times> Stats_AppJs \<Rightarrow> Team \<times> Stats_AppJs \<Rightarrow> jsnum" where
  "compareTeams_AppJs key a b =
     (if key = ''points''
      then minusNum (totalPoints_AppJs (snd b)) (totalPoints_AppJs (snd a))
      else Num (of_int (totalBooks_AppJs (snd b) - totalBooks_AppJs (snd a))))"

definition sortCompare :: "jsnum \<Rightarrow> rat" where
  "sortCompare v = (case v of NaN \<Rightarrow> 0 | Num r \<Rightarrow> r)"

definition getFilteredTeams_AppJs :: "AppState \<Rightarrow> jsError + (Team \<times> Stats_AppJs) list" where
  "getFilteredTeams_AppJs st =
     (case getTeamsWithStats_AppJs (teams st) of
        Inl e \<Rightarrow> Inl e
      | Inr filtered \<Rightarrow>
          (let named =
                 (if searchTerm st \<noteq> []
                  then filter (\<lambda>t. includesStr (toLowerCase (name (fst t)))
                                             (toLowerCase (searchTerm st))) filtered
                  else filtered);
               led =
                 (if filterLeader st \<noteq> ''all''
                  then filter (\<lambda>t. leader (fst t) = filterLeader st) named
                  else named)
           in Inr (sortWith (\<lambda>a b. sortCompare (compareTeams_AppJs (sortBy st) a b)) led)))"

section \<open>Properties of the stats calculation\<close>

lemma addCounts_unfold:
  "addCounts s bc =
     \<lparr>totalBooks = totalBooks s
        + (18 * orZero bc ''Bhagavatam'' + 9 * orZero bc ''CC'' + orZero bc ''MBB''
           + orZero bc ''BB'' + orZero bc ''MB'' + orZero bc ''SB''),
      totalPoints = totalPoints s
        + (72 * of_int (orZero bc ''Bhagavatam'') + 36 * of_int (orZero bc ''CC'')
           + 2 * of_int (orZero bc ''MBB'') + of_int (orZero bc ''BB'')
           + of_int (orZero bc ''MB'') / 2 + of_int (orZero bc ''SB'') / 4)\<rparr>"
  by (simp add: addCounts_def addBook_def BOOK_VALUES_def BOOK_EQUIV_def
      orZero_def [of "[(''Bhagavatam'', _), _, _, _, _, _]"] Let_def)

lemma addCounts_split:
  "addCounts s bc =
     \<lparr>totalBooks = totalBooks s + totalBooks (addCounts zeroStats bc),
      totalPoints = totalPoints s + totalPoints (addCounts zeroStats bc)\<rparr>"
  by (simp add: addCounts_unfold zeroStats_def)

lemma foldl_addCounts:
  "foldl (\<lambda>s entry. addCounts s (counts entry)) s es =
     \<lparr>totalBooks = totalBooks s
        + (\<Sum>e\<leftarrow>es. totalBooks (addCounts zeroStats (counts e))),
      totalPoints = totalPoints s
        + (\<Sum>e\<leftarrow>es. totalPoints (addCounts zeroStats (counts e)))\<rparr>"
proof (induction es arbitrary: s)
  case Nil
  show ?case by simp
next
  case (Cons e es)
  have "foldl (\<lambda>s entry. addCounts s (counts entry)) s (e # es) =
        foldl (\<lambda>s entry. addCounts s (counts entry)) (addCounts s (counts e)) es"
    by simp
  also have "\<dots> =
     \<lparr>totalBooks = totalBooks (addCounts s (counts e))
        + (\<Sum>e\<leftarrow>es. totalBooks (addCounts zeroStats (counts e))),
      totalPoints = totalPoints (addCounts s (counts e))
        + (\<Sum>e\<leftarrow>es. totalPoints (addCounts zeroStats (counts e)))\<rparr>"
    by (rule Cons.IH)
  also have "totalBooks (addCounts s (counts e)) =
        totalBooks s + totalBooks (addCounts zeroStats (counts e))"
    by (subst addCounts_split) simp
  also have "totalPoints (addCounts s (counts e)) =
        totalPoints s + totalPoints (addCounts zeroStats (counts e))"
    by (subst addCounts_split) simp
  finally show ?case
    by (simp add: add.assoc)
qed

text \<open>
  C10. On a flat counts object the date argument is never read: the totals are the same
  for every date filter and for no filter. So a team whose book data is flat-shaped
  gets the same entry from \<^verbatim>\<open>getTeamsWithStats\<close> whatever the date filter is, with
  the full flat totals and not zero, also for a date other than the current one.
\<close>

theorem C10_flat_ignores_date:
  "calculateStats (Flat bookCounts) dateFilter = calculateStats (Flat bookCounts) None
   \<and> (booksDataOf t = Flat bookCounts \<longrightarrow>
        withStats sel dateFilter t = withStats sel None t
        \<and> totalBooks (withStats sel dateFilter t) = totalBooks (calculateStats (Flat bookCounts) None)
        \<and> totalPoints (withStats sel dateFilter t) = totalPoints (calculateStats (Flat bookCounts) None))"
  by (simp add: calculateStats_def withStats_def Let_def)

theorem C10_flat_ignores_date_witness:
  "booksDataOf \<lparr>teamId = ''t1'', name = ''Alpha'', leader = ''L1'',
        books = Some [(''Bhagavatam'', 1), (''MBB'', 3)], booksHistory = None\<rparr>
     = Flat [(''Bhagavatam'', 1), (''MBB'', 3)]
   \<and> totalPoints (withStats ''2024-01-01'' (Some ''1999-12-31'')
        \<lparr>teamId = ''t1'', name = ''Alpha'', leader = ''L1'',
          books = Some [(''Bhagavatam'', 1), (''MBB'', 3)], booksHistory = None\<rparr>) = 78
   \<and> totalBooks (withStats ''2024-01-01'' (Some ''1999-12-31'')
        \<lparr>teamId = ''t1'', name = ''Alpha'', leader = ''L1'',
          books = Some [(''Bhagavatam'', 1), (''MBB'', 3)], booksHistory = None\<rparr>) = 21"
proof -
  let ?t = "\<lparr>teamId = ''t1'', name = ''Alpha'', leader = ''L1'',
        books = Some [(''Bhagavatam'', 1), (''MBB'', 3)], booksHistory = None\<rparr>"
  have flat: "booksDataOf ?t = Flat [(''Bhagavatam'', 1), (''MBB'', 3)]"
    by (simp add: booksDataOf_def)
  have tot: "calculateStats (Flat [(''Bhagavatam'', 1), (''MBB'', 3)]) None
      = \<lparr>totalBooks = 21, totalPoints = 78\<rparr>"
    by (simp add: calculateStats_def addCounts_unfold zeroStats_def orZero_def)
  from C10_flat_ignores_date [of "[(''Bhagavatam'', 1), (''MBB'', 3)]" "Some ''1999-12-31''" ?t "''2024-01-01''"] flat
  have "totalBooks (withStats ''2024-01-01'' (Some ''1999-12-31'') ?t)
          = totalBooks (calculateStats (Flat [(''Bhagavatam'', 1), (''MBB'', 3)]) None)
      \<and> totalPoints (withStats ''2024-01-01'' (Some ''1999-12-31'') ?t)
          = totalPoints (calculateStats (Flat [(''Bhagavatam'', 1), (''MBB'', 3)]) None)"
    by blast
  with flat tot show ?thesis
    by simp
qed


text \<open>
  C2. With no date filter (\<^verbatim>\<open>null\<close>, the default; the empty string of a cleared date
  input is falsy as well) the totals of a history are cumulative: the sum, over all
  its dated entries, of each entry's book units (18 per Bhagavatam, 9 per CC, 1 per
  other book) and of each entry's points (72, 36, 2, 1, 1/2 and 1/4 per book), which
  are the totals of each entry taken alone. Two entries of 21 books and 78 points and
  of 20 books and 72.75 points give 41 books and 150.75 points.
\<close>

theorem C2_history_cumulative:
  "calculateStats (History entries) None =
     \<lparr>totalBooks =
        (\<Sum>e\<leftarrow>entries. 18 * orZero (counts e) ''Bhagavatam'' + 9 * orZero (counts e) ''CC''
            + orZero (counts e) ''MBB'' + orZero (counts e) ''BB''
            + orZero (counts e) ''MB'' + orZero (counts e) ''SB''),
      totalPoints =
        (\<Sum>e\<leftarrow>entries. 72 * of_int (orZero (counts e) ''Bhagavatam'')
            + 36 * of_int (orZero (counts e) ''CC'') + 2 * of_int (orZero (counts e) ''MBB'')
            + of_int (orZero (counts e) ''BB'') + of_int (orZero (counts e) ''MB'') / 2
            + of_int (orZero (counts e) ''SB'') / 4)\<rparr>
   \<and> calculateStats (History entries) None =
     \<lparr>totalBooks = (\<Sum>e\<leftarrow>entries. totalBooks (calculateStats (Flat (counts e)) None)),
      totalPoints = (\<Sum>e\<leftarrow>entries. totalPoints (calculateStats (Flat (counts e)) None))\<rparr>
   \<and> calculateStats (History entries) (Some '''') = calculateStats (History entries) None
   \<and> calculateStats
        (History [\<lparr>date = ''2024-01-01'', counts = [(''Bhagavatam'', 1), (''MBB'', 3)]\<rparr>,
                  \<lparr>date = ''2024-01-02'', counts = [(''CC'', 2), (''MB'', 1), (''SB'', 1)]\<rparr>])
        None
       = \<lparr>totalBooks = 41, totalPoints = 603 / 4\<rparr>"
proof (intro conjI)
  show "calculateStats (History entries) None =
     \<lparr>totalBooks =
        (\<Sum>e\<leftarrow>entries. 18 * orZero (counts e) ''Bhagavatam'' + 9 * orZero (counts e) ''CC''
            + orZero (counts e) ''MBB'' + orZero (counts e) ''BB''
            + orZero (counts e) ''MB'' + orZero (counts e) ''SB''),
      totalPoints =
        (\<Sum>e\<leftarrow>entries. 72 * of_int (orZero (counts e) ''Bhagavatam'')
            + 36 * of_int (orZero (counts e) ''CC'') + 2 * of_int (orZero (counts e) ''MBB'')
            + of_int (orZero (counts e) ''BB'') + of_int (orZero (counts e) ''MB'') / 2
            + of_int (orZero (counts e) ''SB'') / 4)\<rparr>"
    by (simp add: calculateStats_def truthy_def foldl_addCounts)
       (simp add: addCounts_unfold zeroStats_def)
  show "calculateStats (History entries) None =
     \<lparr>totalBooks = (\<Sum>e\<leftarrow>entries. totalBooks (calculateStats (Flat (counts e)) None)),
      totalPoints = (\<Sum>e\<leftarrow>entries. totalPoints (calculateStats (Flat (counts e)) None))\<rparr>"
    by (simp add: calculateStats_def truthy_def foldl_addCounts zeroStats_def)
  show "calculateStats (History entries) (Some '''') = calculateStats (History entries) None"
    by (simp add: calculateStats_def truthy_def)
  show "calculateStats
        (History [\<lparr>date = ''2024-01-01'', counts = [(''Bhagavatam'', 1), (''MBB'', 3)]\<rparr>,
                  \<lparr>date = ''2024-01-02'', counts = [(''CC'', 2), (''MB'', 1), (''SB'', 1)]\<rparr>])
        None
       = \<lparr>totalBooks = 41, totalPoints = 603 / 4\<rparr>"
    by (simp add: calculateStats_def truthy_def addCounts_unfold zeroStats_def orZero_def)
qed

text \<open>
  C3 (as amended). For a history and a non-empty date filter that equals no entry's
  date, both totals are 0; the calculation is total, nothing is raised.
\<close>

theorem C3_unmatched_date_zero:
  assumes "d \<noteq> []" and "d \<notin> date ` set entries"
  shows "totalBooks (calculateStats (History entries) (Some d)) = 0
       \<and> totalPoints (calculateStats (History entries) (Some d)) = 0"
proof -
  from assms(2) have "filter (\<lambda>entry. Some (date entry) = Some d) entries = []"
    by (auto simp: filter_empty_conv)
  with assms(1) show ?thesis
    by (simp add: calculateStats_def truthy_def zeroStats_def)
qed

theorem C3_unmatched_date_zero_witness:
  "''2024-02-01'' \<noteq> []
   \<and> ''2024-02-01'' \<notin> date ` set [\<lparr>date = ''2024-01-01'', counts = [(''BB'', 1)]\<rparr>]
   \<and> totalBooks (calculateStats (History [\<lparr>date = ''2024-01-01'', counts = [(''BB'', 1)]\<rparr>])
        (Some ''2024-02-01'')) = 0
   \<and> totalPoints (calculateStats (History [\<lparr>date = ''2024-01-01'', counts = [(''BB'', 1)]\<rparr>])
        (Some ''2024-02-01'')) = 0"
  using C3_unmatched_date_zero [of "''2024-02-01''" "[\<lparr>date = ''2024-01-01'', counts = [(''BB'', 1)]\<rparr>]"]
  by simp

text \<open>
  The claim as stated, for every date filter string, fails at the empty string: it
  equals no entry's date here, yet it is falsy, so nothing is filtered and the entry
  is counted. (A cleared date input sets \<^verbatim>\<open>selectedDate\<close> to the empty string.)
\<close>

theorem C3_empty_date_counterexample:
  "[] \<notin> date ` set [\<lparr>date = ''2024-01-01'', counts = [(''BB'', 1)]\<rparr>]
   \<and> \<not> (totalBooks (calculateStats (History [\<lparr>date = ''2024-01-01'', counts = [(''BB'', 1)]\<rparr>])
            (Some [])) = 0
        \<and> totalPoints (calculateStats (History [\<lparr>date = ''2024-01-01'', counts = [(''BB'', 1)]\<rparr>])
            (Some [])) = 0)"
  by (simp add: calculateStats_def truthy_def addCounts_unfold zeroStats_def orZero_def)

subsection \<open>Total points are the weighted sum over the fixed categories\<close>

text \<open>
  For the dated revision: the points of a flat counts object are the sum over the six
  categories of count times weight, a key outside the table changes nothing, and the
  counts \<^verbatim>\<open>{Bhagavatam: 1, MBB: 3}\<close> give 78.
\<close>

lemma orZero_update_other: "k' \<noteq> k \<Longrightarrow> orZero (AList.update k v bc) k' = orZero bc k'"
  by (simp add: orZero_def update_conv')

lemma calculateStats_points_sum:
  "totalPoints (calculateStats (Flat bc) d) =
     (\<Sum>(c, weight)\<leftarrow>BOOK_VALUES. of_int (orZero bc c) * weight)"
  by (simp add: calculateStats_def addCounts_unfold zeroStats_def BOOK_VALUES_def)

lemma calculateStats_unknown_category:
  assumes "k \<notin> fst ` set BOOK_VALUES"
  shows "calculateStats (Flat (AList.update k v bc)) d = calculateStats (Flat bc) d"
proof -
  from assms have "k \<noteq> ''Bhagavatam''" "k \<noteq> ''CC''" "k \<noteq> ''MBB''"
      "k \<noteq> ''BB''" "k \<noteq> ''MB''" "k \<noteq> ''SB''"
    by (auto simp: BOOK_VALUES_def)
  then show ?thesis
    by (simp add: calculateStats_def addCounts_unfold orZero_update_other [of _ k])
qed

lemma calculateStats_scenario_A:
  "totalPoints (calculateStats (Flat [(''Bhagavatam'', 1), (''MBB'', 3)]) d) = 78"
  by (simp add: calculateStats_def addCounts_unfold zeroStats_def orZero_def)

text \<open>
  C1. The revision in \<^verbatim>\<open>src/App.js\<close> agrees on \<^verbatim>\<open>{Bhagavatam: 1, MBB: 3}\<close>, but a
  category outside the table does not contribute 0 there: with one more key
  \<^verbatim>\<open>Gita: 2\<close> its total is \<^verbatim>\<open>NaN\<close>, where the dated revision still returns 78.
\<close>

theorem C1_AppJs_unknown_category_NaN:
  "calculateStats_AppJs [(''Bhagavatam'', 1), (''MBB'', 3), (''Gita'', 2)]
     = \<lparr>totalBooks_AppJs = 6, totalPoints_AppJs = NaN\<rparr>
   \<and> totalPoints (calculateStats (Flat [(''Bhagavatam'', 1), (''MBB'', 3), (''Gita'', 2)]) None) = 78
   \<and> calculateStats_AppJs [(''Bhagavatam'', 1), (''MBB'', 3)]
     = \<lparr>totalBooks_AppJs = 4, totalPoints_AppJs = Num 78\<rparr>"
  by (simp add: calculateStats_AppJs_def timesValue_def BOOK_VALUES_def orZero_def
      calculateStats_def addCounts_unfold zeroStats_def)

section \<open>Properties of filtering and sorting\<close>

lemma compareTeams_le_0:
  "compareTeams key x y \<le> 0 \<longleftrightarrow> - selectedStat key x \<le> - selectedStat key y"
  by (simp add: compareTeams_def selectedStat_def)

lemma insertBy_insort_key:
  "insertBy (compareTeams key) x ys = insort_key (\<lambda>t. - selectedStat key t) x ys"
  by (induction ys) (simp_all add: compareTeams_le_0)

lemma sortTeams_sort_key:
  "sortTeams key xs = sort_key (\<lambda>t. - selectedStat key t) xs"
  by (induction xs) (simp_all add: sortTeams_def sortWith_def insertBy_insort_key)

lemma sorted_desc_sortTeams:
  "sorted_wrt (\<lambda>a b. selectedStat key b \<le> selectedStat key a) (sortTeams key xs)"
proof -
  have "sorted (map (\<lambda>t. - selectedStat key t) (sortTeams key xs))"
    by (simp add: sortTeams_sort_key)
  then show ?thesis
    by (simp add: sorted_wrt_map)
qed

lemma length_sortTeams: "length (sortTeams key xs) = length xs"
  by (simp add: sortTeams_sort_key)

text \<open>
  For the dated revision, whose totals are always numbers: the sorted output is in
  descending order of the selected statistic. At positions \<open>i < j\<close> the statistic at
  \<open>i\<close> is at least the one at \<open>j\<close>, for the key \<^verbatim>\<open>points\<close>, for \<^verbatim>\<open>books\<close> and for any
  other value of the key (which sorts by books): no key sorts ascending.
\<close>

lemma sortTeams_descending:
  "\<forall>i j. i < j \<and> j < length (sortTeams key filtered) \<longrightarrow>
      selectedStat key (sortTeams key filtered ! j) \<le> selectedStat key (sortTeams key filtered ! i)
      \<and> (key = ''points'' \<longrightarrow>
           totalPoints (sortTeams key filtered ! j) \<le> totalPoints (sortTeams key filtered ! i))
      \<and> (key = ''books'' \<longrightarrow>
           totalBooks (sortTeams key filtered ! j) \<le> totalBooks (sortTeams key filtered ! i))"
proof (intro allI impI)
  fix i j
  assume ij: "i < j \<and> j < length (sortTeams key filtered)"
  then have *: "selectedStat key (sortTeams key filtered ! j) \<le> selectedStat key (sortTeams key filtered ! i)"
    using sorted_desc_sortTeams [of key filtered] by (simp add: sorted_wrt_iff_nth_less)
  then show "selectedStat key (sortTeams key filtered ! j) \<le> selectedStat key (sortTeams key filtered ! i)
      \<and> (key = ''points'' \<longrightarrow>
           totalPoints (sortTeams key filtered ! j) \<le> totalPoints (sortTeams key filtered ! i))
      \<and> (key = ''books'' \<longrightarrow>
           totalBooks (sortTeams key filtered ! j) \<le> totalBooks (sortTeams key filtered ! i))"
    by (auto simp: selectedStat_def)
qed

lemma sortTeams_descending_example:
  "(0::nat) < 1 \<and> 1 < length (sortTeams ''points''
        [\<lparr>totalBooks = 4, totalPoints = 2\<rparr>, \<lparr>totalBooks = 1, totalPoints = 72\<rparr>])
   \<and> totalPoints (sortTeams ''points''
        [\<lparr>totalBooks = 4, totalPoints = 2\<rparr>, \<lparr>totalBooks = 1, totalPoints = 72\<rparr>] ! 1)
     \<le> totalPoints (sortTeams ''points''
        [\<lparr>totalBooks = 4, totalPoints = 2\<rparr>, \<lparr>totalBooks = 1, totalPoints = 72\<rparr>] ! 0)
   \<and> sortTeams ''points''
        [\<lparr>totalBooks = 4, totalPoints = 2\<rparr>, \<lparr>totalBooks = 1, totalPoints = 72\<rparr>]
      = [\<lparr>totalBooks = 1, totalPoints = 72\<rparr>, \<lparr>totalBooks = 4, totalPoints = 2\<rparr>]"
  using sortTeams_descending [of "''points''"
      "[\<lparr>totalBooks = 4, totalPoints = 2\<rparr>, \<lparr>totalBooks = 1, totalPoints = 72\<rparr>]"]
  by (simp add: sortTeams_def sortWith_def compareTeams_def)

text \<open>
  \<^verbatim>\<open>getFilteredTeams\<close> returns the output of this sort, so the ranked view itself is in
  descending order of the statistic selected by \<^verbatim>\<open>sortBy\<close>.
\<close>

lemma getFilteredTeams_descending:
  "sorted_wrt (\<lambda>a b. selectedStat (sortBy st) b \<le> selectedStat (sortBy st) a)
     (getFilteredTeams st)"
  unfolding getFilteredTeams_def by (rule sorted_desc_sortTeams)

text \<open>
  C7. In \<^verbatim>\<open>src/App.js\<close> the same sort code runs over totals that can be \<^verbatim>\<open>NaN\<close> (a
  category outside the table, as for C1). Every comparison with such a team gives
  \<^verbatim>\<open>NaN\<close>, which the sort takes as 0, so teams with 1, \<^verbatim>\<open>NaN\<close> and 72 points stay in
  that order: the team with 1 point is ranked before the team with 72, and the output
  is not descending. The dated revision ranks the same teams 72, 1, 0.
\<close>

theorem C7_AppJs_sort_not_descending:
  "getFilteredTeams_AppJs
      \<lparr>teams =
         [\<lparr>teamId = ''t1'', name = ''Alpha'', leader = ''L1'',
           books = Some [(''BB'', 1)], booksHistory = None\<rparr>,
          \<lparr>teamId = ''t2'', name = ''Gamma'', leader = ''L1'',
           books = Some [(''Gita'', 2)], booksHistory = None\<rparr>,
          \<lparr>teamId = ''t3'', name = ''Beta'', leader = ''L2'',
           books = Some [(''Bhagavatam'', 1)], booksHistory = None\<rparr>],
       searchTerm = [], filterLeader = ''all'', sortBy = ''points'',
       selectedDate = ''2024-01-01''\<rparr>
     = Inr [(\<lparr>teamId = ''t1'', name = ''Alpha'', leader = ''L1'',
              books = Some [(''BB'', 1)], booksHistory = None\<rparr>,
             \<lparr>totalBooks_AppJs = 1, totalPoints_AppJs = Num 1\<rparr>),
            (\<lparr>teamId = ''t2'', name = ''Gamma'', leader = ''L1'',
              books = Some [(''Gita'', 2)], booksHistory = None\<rparr>,
             \<lparr>totalBooks_AppJs = 2, totalPoints_AppJs = NaN\<rparr>),
            (\<lparr>teamId = ''t3'', name = ''Beta'', leader = ''L2'',
              books = Some [(''Bhagavatam'', 1)], booksHistory = None\<rparr>,
             \<lparr>totalBooks_AppJs = 1, totalPoints_AppJs = Num 72\<rparr>)]
   \<and> map totalPoints (getFilteredTeams
      \<lparr>teams =
         [\<lparr>teamId = ''t1'', name = ''Alpha'', leader = ''L1'',
           books = Some [(''BB'', 1)], booksHistory = None\<rparr>,
          \<lparr>teamId = ''t2'', name = ''Gamma'', leader = ''L1'',
           books = Some [(''Gita'', 2)], booksHistory = None\<rparr>,
          \<lparr>teamId = ''t3'', name = ''Beta'', leader = ''L2'',
           books = Some [(''Bhagavatam'', 1)], booksHistory = None\<rparr>],
       searchTerm = [], filterLeader = ''all'', sortBy = ''points'',
       selectedDate = ''2024-01-01''\<rparr>)
     = [72, 1, 0]"
proof (intro conjI)
  show "getFilteredTeams_AppJs
      \<lparr>teams =
         [\<lparr>teamId = ''t1'', name = ''Alpha'', leader = ''L1'',
           books = Some [(''BB'', 1)], booksHistory = None\<rparr>,
          \<lparr>teamId = ''t2'', name = ''Gamma'', leader = ''L1'',
           books = Some [(''Gita'', 2)], booksHistory = None\<rparr>,
          \<lparr>teamId = ''t3'', name = ''Beta'', leader = ''L2'',
           books = Some [(''Bhagavatam'', 1)], booksHistory = None\<rparr>],
       searchTerm = [], filterLeader = ''all'', sortBy = ''points'',
       selectedDate = ''2024-01-01''\<rparr>
     = Inr [(\<lparr>teamId = ''t1'', name = ''Alpha'', leader = ''L1'',
              books = Some [(''BB'', 1)], booksHistory = None\<rparr>,
             \<lparr>totalBooks_AppJs = 1, totalPoints_AppJs = Num 1\<rparr>),
            (\<lparr>teamId = ''t2'', name = ''Gamma'', leader = ''L1'',
              books = Some [(''Gita'', 2)], booksHistory = None\<rparr>,
             \<lparr>totalBooks_AppJs = 2, totalPoints_AppJs = NaN\<rparr>),
            (\<lparr>teamId = ''t3'', name = ''Beta'', leader = ''L2'',
              books = Some [(''Bhagavatam'', 1)], booksHistory = None\<rparr>,
             \<lparr>totalBooks_AppJs = 1, totalPoints_AppJs = Num 72\<rparr>)]"
    by (simp add: getFilteredTeams_AppJs_def calculateStats_AppJs_def timesValue_def
        BOOK_VALUES_def orZero_def sortWith_def compareTeams_AppJs_def sortCompare_def)
  show "map totalPoints (getFilteredTeams
      \<lparr>teams =
         [\<lparr>teamId = ''t1'', name = ''Alpha'', leader = ''L1'',
           books = Some [(''BB'', 1)], booksHistory = None\<rparr>,
          \<lparr>teamId = ''t2'', name = ''Gamma'', leader = ''L1'',
           books = Some [(''Gita'', 2)], booksHistory = None\<rparr>,
          \<lparr>teamId = ''t3'', name = ''Beta'', leader = ''L2'',
           books = Some [(''Bhagavatam'', 1)], booksHistory = None\<rparr>],
       searchTerm = [], filterLeader = ''all'', sortBy = ''points'',
       selectedDate = ''2024-01-01''\<rparr>)
     = [72, 1, 0]"
    by (simp add: getFilteredTeams_def getTeamsWithStats_def withStats_def booksDataOf_def
        calculateStats_def addCounts_unfold zeroStats_def orZero_def
        searchFilter_def leaderFilter_def sortTeams_def sortWith_def compareTeams_def)
qed

text \<open>
  C8. Sorting is idempotent: a sequence already in descending order of the key is
  returned unchanged, sorting twice is sorting once, and teams with the same value of
  the key keep their input order (two tied teams stay as they were).
\<close>

theorem C8_sort_idempotent:
  "(sorted_wrt (\<lambda>a b. selectedStat key b \<le> selectedStat key a) xs \<longrightarrow> sortTeams key xs = xs)
   \<and> sortTeams key (sortTeams key xs) = sortTeams key xs
   \<and> filter (\<lambda>t. selectedStat key t = v) (sortTeams key xs) = filter (\<lambda>t. selectedStat key t = v) xs
   \<and> (selectedStat key a = selectedStat key b \<longrightarrow> sortTeams key [a, b] = [a, b])"
proof -
  have id: "sortTeams key ys = ys"
    if "sorted_wrt (\<lambda>a b. selectedStat key b \<le> selectedStat key a) ys" for ys
  proof -
    from that have "sorted (map (\<lambda>t. - selectedStat key t) ys)"
      by (simp add: sorted_wrt_map)
    then show ?thesis
      by (simp add: sortTeams_sort_key sort_key_id_if_sorted)
  qed
  have stable: "filter (\<lambda>t. selectedStat key t = v) (sortTeams key xs)
      = filter (\<lambda>t. selectedStat key t = v) xs"
    using sort_key_stable [of "\<lambda>t. - selectedStat key t" "- v" xs]
    by (simp add: sortTeams_sort_key)
  have tie: "sortTeams key [a, b] = [a, b]" if "selectedStat key a = selectedStat key b"
    using that by (intro id) simp
  from id [of xs] id [OF sorted_desc_sortTeams [of key xs]] stable tie show ?thesis
    by blast
qed

theorem C8_sort_idempotent_witness:
  "sorted_wrt (\<lambda>a b. selectedStat ''points'' b \<le> selectedStat ''points'' a)
      [\<lparr>totalBooks = 1, totalPoints = 5\<rparr>, \<lparr>totalBooks = 3, totalPoints = 5\<rparr>,
       \<lparr>totalBooks = 2, totalPoints = 1 / 2\<rparr>]
   \<and> sortTeams ''points''
      [\<lparr>totalBooks = 1, totalPoints = 5\<rparr>, \<lparr>totalBooks = 3, totalPoints = 5\<rparr>,
       \<lparr>totalBooks = 2, totalPoints = 1 / 2\<rparr>]
     = [\<lparr>totalBooks = 1, totalPoints = 5\<rparr>, \<lparr>totalBooks = 3, totalPoints = 5\<rparr>,
        \<lparr>totalBooks = 2, totalPoints = 1 / 2\<rparr>]
   \<and> selectedStat ''points'' \<lparr>totalBooks = 1, totalPoints = 5\<rparr>
       = selectedStat ''points'' \<lparr>totalBooks = 3, totalPoints = 5\<rparr>
   \<and> sortTeams ''points'' [\<lparr>totalBooks = 1, totalPoints = 5\<rparr>, \<lparr>totalBooks = 3, totalPoints = 5\<rparr>]
       = [\<lparr>totalBooks = 1, totalPoints = 5\<rparr>, \<lparr>totalBooks = 3, totalPoints = 5\<rparr>]"
  using C8_sort_idempotent [of "''points''"
      "[\<lparr>totalBooks = 1, totalPoints = 5\<rparr>, \<lparr>totalBooks = 3, totalPoints = 5\<rparr>,
        \<lparr>totalBooks = 2, totalPoints = 1 / 2\<rparr>]" 5
      "\<lparr>totalBooks = 1, totalPoints = 5\<rparr>" "\<lparr>totalBooks = 3, totalPoints = 5\<rparr>"]
  by (simp add: selectedStat_def)

text \<open>
  C9. The name filter and the leader filter commute: applied in either order they give
  the same sequence, hence the same result set.
\<close>

theorem C9_filters_commute:
  "leaderFilter fl (searchFilter srch ts) = searchFilter srch (leaderFilter fl ts)
   \<and> set (leaderFilter fl (searchFilter srch ts)) = set (searchFilter srch (leaderFilter fl ts))"
proof -
  have "leaderFilter fl (searchFilter srch ts) = searchFilter srch (leaderFilter fl ts)"
    by (simp add: leaderFilter_def searchFilter_def conj_commute)
  then show ?thesis
    by simp
qed

section \<open>Properties of the admin operations\<close>

lemma orZero_update_same: "orZero (AList.update k v bc) k = v"
  by (simp add: orZero_def update_conv')

lemma list_all_update_nonneg:
  "list_all (\<lambda>(k, v). (0::int) \<le> v) bc \<Longrightarrow> 0 \<le> v \<Longrightarrow>
   list_all (\<lambda>(k, v). 0 \<le> v) (AList.update k v bc)"
  by (induction bc) (auto simp: list_all_iff)

lemma find_Some_in_set: "find P ts = Some tm \<Longrightarrow> tm \<in> set ts \<and> P tm"
  by (auto simp: find_Some_iff)

lemma handleUpdateBookCount_preserves:
  assumes "list_all countsNonNegative ts"
  shows "list_all countsNonNegative (handleUpdateBookCount ts tid bt delta)"
proof (cases "find (\<lambda>t. teamId t = tid) ts")
  case None
  with assms show ?thesis by (simp add: handleUpdateBookCount_def)
next
  case (Some tm)
  then have "tm \<in> set ts" by (auto dest: find_Some_in_set)
  with assms have "countsNonNegative tm" by (simp add: list_all_iff)
  then have cur: "list_all (\<lambda>(k, v). 0 \<le> v) (booksOrEmpty tm)"
    by (simp add: countsNonNegative_def booksOrEmpty_def split: option.splits)
  have "list_all (\<lambda>(k, v). 0 \<le> v)
          (AList.update bt (max 0 (orZero (booksOrEmpty tm) bt + delta)) (booksOrEmpty tm))"
    by (rule list_all_update_nonneg [OF cur]) simp
  with assms Some show ?thesis
    by (auto simp: handleUpdateBookCount_def Let_def list_all_iff countsNonNegative_def)
qed

lemma handleUpdateBookCount_stored:
  assumes f: "find (\<lambda>t. teamId t = tid) ts = Some tm"
      and t: "t \<in> set (handleUpdateBookCount ts tid bt delta)" and tid: "teamId t = tid"
  shows "orZero (booksOrEmpty t) bt = max 0 (orZero (booksOrEmpty tm) bt + delta)"
proof -
  define newBooks where
    "newBooks = AList.update bt (max 0 (orZero (booksOrEmpty tm) bt + delta)) (booksOrEmpty tm)"
  have "handleUpdateBookCount ts tid bt delta =
      map (\<lambda>t. if teamId t = tid then t\<lparr>books := Some newBooks\<rparr> else t) ts"
    by (simp add: handleUpdateBookCount_def f Let_def newBooks_def)
  with t obtain t0 where "t0 \<in> set ts"
      and t0: "t = (if teamId t0 = tid then t0\<lparr>books := Some newBooks\<rparr> else t0)"
    by auto
  with tid have "books t = Some newBooks"
    by (cases "teamId t0 = tid") simp_all
  then have "booksOrEmpty t = newBooks"
    by (simp add: booksOrEmpty_def)
  then show ?thesis
    by (simp add: newBooks_def orZero_update_same)
qed

text \<open>
  C5. The per-category adjustment never stores a negative count. The count written for
  the chosen category is \<open>max 0 (old + delta)\<close>: it is at least 0 for every
  starting count and every delta, and it is 0 whenever \<open>old + delta\<close> is not positive
  (decrementing 0 gives 0). Hence the invariant that no stored count is negative is
  preserved.
\<close>

theorem C5_decrement_never_negative:
  "(list_all countsNonNegative ts \<longrightarrow>
      list_all countsNonNegative (handleUpdateBookCount ts tid bookType delta))
   \<and> (\<forall>t \<in> set (handleUpdateBookCount ts tid bookType delta). teamId t = tid \<longrightarrow>
        0 \<le> orZero (booksOrEmpty t) bookType
        \<and> (\<forall>tm. find (\<lambda>t. teamId t = tid) ts = Some tm \<longrightarrow>
             orZero (booksOrEmpty t) bookType = max 0 (orZero (booksOrEmpty tm) bookType + delta)
             \<and> (orZero (booksOrEmpty tm) bookType + delta \<le> 0 \<longrightarrow>
                  orZero (booksOrEmpty t) bookType = 0)))"
proof (intro conjI impI ballI allI)
  assume "list_all countsNonNegative ts"
  then show "list_all countsNonNegative (handleUpdateBookCount ts tid bookType delta)"
    by (rule handleUpdateBookCount_preserves)
next
  fix t
  assume t: "t \<in> set (handleUpdateBookCount ts tid bookType delta)" "teamId t = tid"
  show "0 \<le> orZero (booksOrEmpty t) bookType"
  proof (cases "find (\<lambda>t. teamId t = tid) ts")
    case None
    then have "handleUpdateBookCount ts tid bookType delta = ts"
      by (simp add: handleUpdateBookCount_def)
    with t(1) have "t \<in> set ts" by simp
    with None t(2) have False
      by (simp add: find_None_iff)
    then show ?thesis ..
  next
    case (Some tm)
    from handleUpdateBookCount_stored [OF Some t] show ?thesis by simp
  qed
next
  fix t tm
  assume t: "t \<in> set (handleUpdateBookCount ts tid bookType delta)" "teamId t = tid"
     and f: "find (\<lambda>t. teamId t = tid) ts = Some tm"
  from handleUpdateBookCount_stored [OF f t]
  show "orZero (booksOrEmpty t) bookType = max 0 (orZero (booksOrEmpty tm) bookType + delta)" .
next
  fix t tm
  assume t: "t \<in> set (handleUpdateBookCount ts tid bookType delta)" "teamId t = tid"
     and f: "find (\<lambda>t. teamId t = tid) ts = Some tm"
     and le: "orZero (booksOrEmpty tm) bookType + delta \<le> 0"
  from handleUpdateBookCount_stored [OF f t] le
  show "orZero (booksOrEmpty t) bookType = 0" by simp
qed


theorem C5_decrement_never_negative_witness:
  "list_all countsNonNegative
      [\<lparr>teamId = ''t1'', name = ''Alpha Squad'', leader = ''L1'',
        books = Some [(''BB'', 0), (''MB'', 2)], booksHistory = None\<rparr>]
   \<and> list_all countsNonNegative (handleUpdateBookCount
      [\<lparr>teamId = ''t1'', name = ''Alpha Squad'', leader = ''L1'',
        books = Some [(''BB'', 0), (''MB'', 2)], booksHistory = None\<rparr>] ''t1'' ''BB'' (- 1))
   \<and> handleUpdateBookCount
      [\<lparr>teamId = ''t1'', name = ''Alpha Squad'', leader = ''L1'',
        books = Some [(''BB'', 0), (''MB'', 2)], booksHistory = None\<rparr>] ''t1'' ''BB'' (- 1)
     = [\<lparr>teamId = ''t1'', name = ''Alpha Squad'', leader = ''L1'',
         books = Some [(''BB'', 0), (''MB'', 2)], booksHistory = None\<rparr>]"
proof -
  let ?ts = "[\<lparr>teamId = ''t1'', name = ''Alpha Squad'', leader = ''L1'',
        books = Some [(''BB'', 0), (''MB'', 2)], booksHistory = None\<rparr>]"
  have inv: "list_all countsNonNegative ?ts"
    by (simp add: countsNonNegative_def)
  with C5_decrement_never_negative [of ?ts "''t1''" "''BB''" "- 1"]
  have after: "list_all countsNonNegative (handleUpdateBookCount ?ts ''t1'' ''BB'' (- 1))"
    by (rule conjunct1 [THEN mp])
  have run: "handleUpdateBookCount ?ts ''t1'' ''BB'' (- 1) = ?ts"
    by (simp add: handleUpdateBookCount_def booksOrEmpty_def orZero_def)
  from inv after run show ?thesis
    by (intro conjI)
qed


lemma findIndex_None: "findIndex P xs = None \<longleftrightarrow> (\<forall>x \<in> set xs. \<not> P x)"
  by (induction xs) auto

lemma findIndex_Some:
  "findIndex P xs = Some i \<Longrightarrow> i < length xs \<and> P (xs ! i) \<and> (\<forall>j < i. \<not> P (xs ! j))"
proof (induction xs arbitrary: i)
  case Nil
  then show ?case by simp
next
  case (Cons x xs)
  show ?case
  proof (cases "P x")
    case True
    with Cons.prems show ?thesis by simp
  next
    case False
    with Cons.prems obtain k where k: "findIndex P xs = Some k" "i = Suc k"
      by auto
    from Cons.IH [OF k(1)] False k(2) show ?thesis
      by (auto simp: less_Suc_eq_0_disj)
  qed
qed

lemma map_date_overwrite:
  "i < length h \<Longrightarrow> date (h ! i) = d \<Longrightarrow>
   map date (h[i := \<lparr>date = d, counts = bs\<rparr>]) = map date h"
  by (simp add: map_update list_update_same_conv)

lemma upsertEntry_overwrite:
  assumes "d \<in> date ` set h"
  shows "\<exists>i < length h. date (h ! i) = d \<and> (\<forall>j < i. date (h ! j) \<noteq> d)
           \<and> upsertEntry h d bs = h[i := \<lparr>date = d, counts = bs\<rparr>]"
proof -
  from assms have "findIndex (\<lambda>entry. date entry = d) h \<noteq> None"
    by (auto simp: findIndex_None)
  then obtain i where i: "findIndex (\<lambda>entry. date entry = d) h = Some i"
    by auto
  from findIndex_Some [OF i] i show ?thesis
    by (auto simp: upsertEntry_def)
qed

lemma upsertEntry_append:
  assumes "d \<notin> date ` set h"
  shows "upsertEntry h d bs = h @ [\<lparr>date = d, counts = bs\<rparr>]"
proof -
  from assms have "findIndex (\<lambda>entry. date entry = d) h = None"
    by (auto simp: findIndex_None)
  then show ?thesis by (simp add: upsertEntry_def)
qed

lemma map_date_upsertEntry:
  "map date (upsertEntry h d bs) = (if d \<in> date ` set h then map date h else map date h @ [d])"
proof (cases "d \<in> date ` set h")
  case True
  from upsertEntry_overwrite [OF True, of bs] show ?thesis
    using True by (auto simp: map_date_overwrite)
next
  case False
  then show ?thesis by (simp add: upsertEntry_append)
qed

lemma distinct_upsertEntry:
  "distinct (map date h) \<Longrightarrow> distinct (map date (upsertEntry h d bs))"
  by (simp add: map_date_upsertEntry)

lemma distinct_startHistory:
  "oneEntryPerDate tm \<Longrightarrow> distinct (map date (startHistory today tm))"
  by (simp add: oneEntryPerDate_def startHistory_def split: option.splits BooksData.splits)

lemma list_all_updateFirst:
  "list_all Q xs \<Longrightarrow> (\<And>x. Q x \<Longrightarrow> P x \<Longrightarrow> Q (f x)) \<Longrightarrow> list_all Q (updateFirst P f xs)"
  by (induction xs) auto

lemma onUpdateOne_preserves:
  assumes c: "list_all oneEntryPerDate (captured s)" and st: "list_all oneEntryPerDate (stored s)"
  shows "list_all oneEntryPerDate (captured (onUpdateOne today s u))
       \<and> list_all oneEntryPerDate (stored (onUpdateOne today s u))"
proof -
  obtain tid d bs where u: "u = (tid, d, bs)" by (cases u)
  show ?thesis
  proof (cases "find (\<lambda>t. teamId t = tid) (captured s)")
    case None
    with c st u show ?thesis by (simp add: onUpdateOne_def)
  next
    case (Some tm)
    let ?h = "upsertEntry (startHistory today tm) d bs"
    from Some have "tm \<in> set (captured s)" by (auto simp: find_Some_iff)
    with c have "oneEntryPerDate tm" by (simp add: list_all_iff)
    then have dist: "distinct (map date ?h)"
      by (intro distinct_upsertEntry distinct_startHistory)
    have cap: "list_all oneEntryPerDate
        (updateFirst (\<lambda>t. teamId t = tid) (\<lambda>t. t\<lparr>booksHistory := Some (History ?h)\<rparr>) (captured s))"
      using c by (rule list_all_updateFirst) (simp add: oneEntryPerDate_def dist)
    have sto: "list_all oneEntryPerDate
        (map (\<lambda>t. if teamId t = tid then t\<lparr>booksHistory := Some (History ?h), books := Some bs\<rparr>
                  else t) (stored s))"
      using st dist by (auto simp: list_all_iff oneEntryPerDate_def)
    from cap sto c show ?thesis
      by (simp add: onUpdateOne_def u Some Let_def
          split: option.splits BooksData.splits)
  qed
qed

lemma foldl_onUpdateOne_preserves:
  "list_all oneEntryPerDate (captured s) \<Longrightarrow> list_all oneEntryPerDate (stored s) \<Longrightarrow>
   list_all oneEntryPerDate (stored (foldl (onUpdateOne today) s updates))"
proof (induction updates arbitrary: s)
  case Nil
  then show ?case by simp
next
  case (Cons u us)
  from onUpdateOne_preserves [OF Cons.prems, of today u]
  have "list_all oneEntryPerDate (stored (foldl (onUpdateOne today) (onUpdateOne today s u) us))"
    by (intro Cons.IH) simp_all
  then show ?case by simp
qed

lemma onUpdate_preserves:
  "list_all oneEntryPerDate ts \<Longrightarrow> list_all oneEntryPerDate (onUpdate today ts updates)"
  unfolding onUpdate_def by (rule foldl_onUpdateOne_preserves) simp_all

lemma find_captured:
  assumes "list_all2 (\<lambda>c t. teamId c = teamId t \<and> (teamId t \<notin> D \<longrightarrow> c = t)) cl ts"
      and "tid \<notin> D"
  shows "find (\<lambda>t. teamId t = tid) cl = find (\<lambda>t. teamId t = tid) ts"
  using assms by (induction rule: list_all2_induct) auto

lemma list_all2_updateFirst:
  assumes "list_all2 R xs ys"
      and "\<And>x y. R x y \<Longrightarrow> R' x y"
      and "\<And>x y. R x y \<Longrightarrow> P x \<Longrightarrow> R' (f x) y"
  shows "list_all2 R' (updateFirst P f xs) ys"
  using assms by (induction rule: list_all2_induct) (auto intro: list_all2_mono)

lemma onUpdate_state:
  assumes "distinct (map fst updates)"
  shows "list_all2 (\<lambda>c t. teamId c = teamId t \<and> (teamId t \<notin> fst ` set updates \<longrightarrow> c = t))
           (captured (foldl (onUpdateOne today) \<lparr>captured = ts, stored = ts\<rparr> updates)) ts
       \<and> list_all2 (\<lambda>s t. teamId s = teamId t \<and> (teamId t \<notin> fst ` set updates \<longrightarrow> s = t)
             \<and> (\<forall>d bs tm. (teamId t, d, bs) \<in> set updates \<longrightarrow>
                    find (\<lambda>x. teamId x = teamId t) ts = Some tm \<longrightarrow>
                    s = t\<lparr>booksHistory := Some (History (upsertEntry (startHistory today tm) d bs)),
                          books := Some bs\<rparr>))
           (stored (foldl (onUpdateOne today) \<lparr>captured = ts, stored = ts\<rparr> updates)) ts"
  using assms
proof (induction updates rule: rev_induct)
  case Nil
  show ?case by (simp add: list_all2_same)
next
  case (snoc u us)
  obtain tid d bs where u: "u = (tid, d, bs)" by (cases u)
  from snoc.prems have dus: "distinct (map fst us)" and fresh: "tid \<notin> fst ` set us"
    by (auto simp: u)
  let ?s = "foldl (onUpdateOne today) \<lparr>captured = ts, stored = ts\<rparr> us"
  from snoc.IH [OF dus]
  have capI: "list_all2 (\<lambda>c t. teamId c = teamId t \<and> (teamId t \<notin> fst ` set us \<longrightarrow> c = t))
           (captured ?s) ts"
   and stoI: "list_all2 (\<lambda>s t. teamId s = teamId t \<and> (teamId t \<notin> fst ` set us \<longrightarrow> s = t)
             \<and> (\<forall>d bs tm. (teamId t, d, bs) \<in> set us \<longrightarrow>
                    find (\<lambda>x. teamId x = teamId t) ts = Some tm \<longrightarrow>
                    s = t\<lparr>booksHistory := Some (History (upsertEntry (startHistory today tm) d bs)),
                          books := Some bs\<rparr>))
           (stored ?s) ts"
    by blast+
  have fnd: "find (\<lambda>t. teamId t = tid) (captured ?s) = find (\<lambda>t. teamId t = tid) ts"
    by (rule find_captured [OF capI fresh])
  have step: "foldl (onUpdateOne today) \<lparr>captured = ts, stored = ts\<rparr> (us @ [u])
      = onUpdateOne today ?s u"
    by simp
  have in_us: "teamId t \<noteq> tid" if "(teamId t, d', bs') \<in> set us" for t :: Team and d' bs'
    using that fresh by force
  show ?case
  proof (cases "find (\<lambda>t. teamId t = tid) ts")
    case None
    then have same: "onUpdateOne today ?s u = ?s"
      by (simp add: onUpdateOne_def u fnd)
    have "list_all2 (\<lambda>c t. teamId c = teamId t \<and> (teamId t \<notin> fst ` set (us @ [u]) \<longrightarrow> c = t))
           (captured ?s) ts"
      using capI by (rule list_all2_mono) auto
    moreover have "list_all2 (\<lambda>s t. teamId s = teamId t
             \<and> (teamId t \<notin> fst ` set (us @ [u]) \<longrightarrow> s = t)
             \<and> (\<forall>d bs tm. (teamId t, d, bs) \<in> set (us @ [u]) \<longrightarrow>
                    find (\<lambda>x. teamId x = teamId t) ts = Some tm \<longrightarrow>
                    s = t\<lparr>booksHistory := Some (History (upsertEntry (startHistory today tm) d bs)),
                          books := Some bs\<rparr>))
           (stored ?s) ts"
      using stoI by (rule list_all2_mono) (use None in \<open>auto simp: u\<close>)
    ultimately show ?thesis
      unfolding step same by blast
  next
    case (Some tm)
    let ?h = "upsertEntry (startHistory today tm) d bs"
    let ?f = "\<lambda>t::Team. t\<lparr>booksHistory := Some (History ?h)\<rparr>"
    let ?g = "\<lambda>t::Team. if teamId t = tid
                 then t\<lparr>booksHistory := Some (History ?h), books := Some bs\<rparr> else t"
    have sto_eq: "stored (onUpdateOne today ?s u) = map ?g (stored ?s)"
      by (simp add: onUpdateOne_def u fnd Some Let_def)
    have cap_eq: "captured (onUpdateOne today ?s u) = captured ?s
        \<or> captured (onUpdateOne today ?s u)
            = updateFirst (\<lambda>t. teamId t = tid) ?f (captured ?s)"
      by (simp add: onUpdateOne_def u fnd Some Let_def split: option.splits BooksData.splits)
    have A0: "list_all2 (\<lambda>c t. teamId c = teamId t \<and> (teamId t \<notin> fst ` set (us @ [u]) \<longrightarrow> c = t))
           (captured ?s) ts"
      using capI by (rule list_all2_mono) auto
    have A1: "list_all2 (\<lambda>c t. teamId c = teamId t \<and> (teamId t \<notin> fst ` set (us @ [u]) \<longrightarrow> c = t))
           (updateFirst (\<lambda>t. teamId t = tid) ?f (captured ?s)) ts"
      using capI by (rule list_all2_updateFirst) (auto simp: u)
    from cap_eq A0 A1
    have A: "list_all2 (\<lambda>c t. teamId c = teamId t \<and> (teamId t \<notin> fst ` set (us @ [u]) \<longrightarrow> c = t))
           (captured (onUpdateOne today ?s u)) ts"
      by auto
    have B: "list_all2 (\<lambda>s t. teamId s = teamId t
             \<and> (teamId t \<notin> fst ` set (us @ [u]) \<longrightarrow> s = t)
             \<and> (\<forall>d bs tm. (teamId t, d, bs) \<in> set (us @ [u]) \<longrightarrow>
                    find (\<lambda>x. teamId x = teamId t) ts = Some tm \<longrightarrow>
                    s = t\<lparr>booksHistory := Some (History (upsertEntry (startHistory today tm) d bs)),
                          books := Some bs\<rparr>))
           (map ?g (stored ?s)) ts"
      unfolding list_all2_map1 using stoI
    proof (rule list_all2_mono)
      fix s t :: Team
      assume old: "teamId s = teamId t \<and> (teamId t \<notin> fst ` set us \<longrightarrow> s = t)
             \<and> (\<forall>d bs tm. (teamId t, d, bs) \<in> set us \<longrightarrow>
                    find (\<lambda>x. teamId x = teamId t) ts = Some tm \<longrightarrow>
                    s = t\<lparr>booksHistory := Some (History (upsertEntry (startHistory today tm) d bs)),
                          books := Some bs\<rparr>)"
      show "teamId (?g s) = teamId t
             \<and> (teamId t \<notin> fst ` set (us @ [u]) \<longrightarrow> ?g s = t)
             \<and> (\<forall>d bs tm. (teamId t, d, bs) \<in> set (us @ [u]) \<longrightarrow>
                    find (\<lambda>x. teamId x = teamId t) ts = Some tm \<longrightarrow>
                    ?g s = t\<lparr>booksHistory := Some (History (upsertEntry (startHistory today tm) d bs)),
                          books := Some bs\<rparr>)"
      proof (cases "teamId t = tid")
        case True
        with fresh old have st: "s = t" by auto
        from True fresh have notin: "(teamId t, d', bs') \<notin> set us" for d' bs'
          by force
        from True st Some notin show ?thesis
          by (auto simp: u)
      next
        case False
        with old show ?thesis
          by (auto simp: u)
      qed
    qed
    from A B show ?thesis
      unfolding step sto_eq by blast
  qed
qed

text \<open>
  C6. The bulk score update keeps at most one history entry per date. For every team
  named by an update, the history stored afterwards is the history the update started
  from (the team's stored array) with the entry of the chosen date overwritten in
  place when there is one (same length, one index replaced), and with exactly one
  entry appended otherwise; teams not named are left as they were. After the update of
  a history with distinct dates exactly one entry carries the chosen date, so no
  duplicate is ever appended, and the invariant holds for every team after the whole
  update. (\<^verbatim>\<open>updates\<close> names each team at most once: the modal builds it from the
  keys of one object.)
\<close>

theorem C6_one_entry_per_date:
  "(list_all oneEntryPerDate ts \<longrightarrow> list_all oneEntryPerDate (onUpdate today ts updates))
   \<and> (distinct (map fst updates) \<longrightarrow>
        length (onUpdate today ts updates) = length ts
        \<and> (\<forall>i < length ts.
              (teamId (ts ! i) \<notin> fst ` set updates \<longrightarrow> onUpdate today ts updates ! i = ts ! i)
              \<and> (\<forall>d' bs' tm. (teamId (ts ! i), d', bs') \<in> set updates \<longrightarrow>
                     find (\<lambda>t. teamId t = teamId (ts ! i)) ts = Some tm \<longrightarrow>
                     onUpdate today ts updates ! i
                       = (ts ! i)\<lparr>booksHistory :=
                                     Some (History (upsertEntry (startHistory today tm) d' bs')),
                                   books := Some bs'\<rparr>)))
   \<and> (booksHistory tm = Some (History h) \<longrightarrow> startHistory today tm = h)
   \<and> (booksHistory tm = None \<longrightarrow> startHistory today tm = [])
   \<and> (distinct (map date h) \<longrightarrow> distinct (map date (upsertEntry h d bs)))
   \<and> (d \<in> date ` set h \<longrightarrow>
        length (upsertEntry h d bs) = length h
        \<and> (\<exists>i < length h. date (h ! i) = d \<and> upsertEntry h d bs = h[i := \<lparr>date = d, counts = bs\<rparr>]))
   \<and> (d \<notin> date ` set h \<longrightarrow> upsertEntry h d bs = h @ [\<lparr>date = d, counts = bs\<rparr>])
   \<and> (distinct (map date h) \<longrightarrow>
        filter (\<lambda>entry. date entry = d) (upsertEntry h d bs) = [\<lparr>date = d, counts = bs\<rparr>])"
proof (intro conjI impI allI)
  assume "list_all oneEntryPerDate ts"
  then show "list_all oneEntryPerDate (onUpdate today ts updates)"
    by (rule onUpdate_preserves)
next
  assume "distinct (map fst updates)"
  from onUpdate_state [OF this, of today ts]
  show "length (onUpdate today ts updates) = length ts"
    by (auto simp: onUpdate_def dest: list_all2_lengthD)
next
  fix i
  assume du: "distinct (map fst updates)" and i: "i < length ts"
     and "teamId (ts ! i) \<notin> fst ` set updates"
  with list_all2_nthD2 [OF conjunct2 [OF onUpdate_state [OF du, of today ts]] i]
  show "onUpdate today ts updates ! i = ts ! i"
    by (simp add: onUpdate_def)
next
  fix i d' bs' tm
  assume du: "distinct (map fst updates)" and i: "i < length ts"
     and "(teamId (ts ! i), d', bs') \<in> set updates"
     and "find (\<lambda>t. teamId t = teamId (ts ! i)) ts = Some tm"
  with list_all2_nthD2 [OF conjunct2 [OF onUpdate_state [OF du, of today ts]] i]
  show "onUpdate today ts updates ! i
      = (ts ! i)\<lparr>booksHistory := Some (History (upsertEntry (startHistory today tm) d' bs')),
                  books := Some bs'\<rparr>"
    by (simp add: onUpdate_def)
next
  assume "booksHistory tm = Some (History h)"
  then show "startHistory today tm = h"
    by (simp add: startHistory_def)
next
  assume "booksHistory tm = None"
  then show "startHistory today tm = []"
    by (simp add: startHistory_def)
next
  assume "distinct (map date h)"
  then show "distinct (map date (upsertEntry h d bs))"
    by (rule distinct_upsertEntry)
next
  assume "d \<in> date ` set h"
  from upsertEntry_overwrite [OF this, of bs]
  show "length (upsertEntry h d bs) = length h" by auto
next
  assume "d \<in> date ` set h"
  from upsertEntry_overwrite [OF this, of bs]
  show "\<exists>i < length h. date (h ! i) = d \<and> upsertEntry h d bs = h[i := \<lparr>date = d, counts = bs\<rparr>]"
    by blast
next
  assume "d \<notin> date ` set h"
  then show "upsertEntry h d bs = h @ [\<lparr>date = d, counts = bs\<rparr>]"
    by (rule upsertEntry_append)
next
  assume dist: "distinct (map date h)"
  show "filter (\<lambda>entry. date entry = d) (upsertEntry h d bs) = [\<lparr>date = d, counts = bs\<rparr>]"
  proof (cases "d \<in> date ` set h")
    case False
    then have "filter (\<lambda>entry. date entry = d) h = []"
      by (auto simp: filter_empty_conv)
    with False show ?thesis by (simp add: upsertEntry_append)
  next
    case True
    from upsertEntry_overwrite [OF True, of bs] obtain i where
      i: "i < length h" "date (h ! i) = d" "upsertEntry h d bs = h[i := \<lparr>date = d, counts = bs\<rparr>]"
      by blast
    have others: "date (h ! j) \<noteq> d" if "j < length h" "j \<noteq> i" for j
      using dist that i(1,2) by (auto simp: distinct_conv_nth)
    have "h[i := \<lparr>date = d, counts = bs\<rparr>] = take i h @ \<lparr>date = d, counts = bs\<rparr> # drop (Suc i) h"
      using i(1) by (simp add: upd_conv_take_nth_drop)
    moreover have "date x \<noteq> d" if "x \<in> set (take i h)" for x
    proof -
      from that i(1) obtain j where "j < i" "x = h ! j"
        by (auto simp: in_set_conv_nth)
      with others [of j] i(1) show ?thesis by simp
    qed
    then have "filter (\<lambda>entry. date entry = d) (take i h) = []"
      by (simp add: filter_empty_conv)
    moreover have "date x \<noteq> d" if "x \<in> set (drop (Suc i) h)" for x
    proof -
      from that obtain j where "j < length h - Suc i" "x = h ! (Suc i + j)"
        by (auto simp: in_set_conv_nth)
      with others [of "Suc i + j"] show ?thesis by simp
    qed
    then have "filter (\<lambda>entry. date entry = d) (drop (Suc i) h) = []"
      by (simp add: filter_empty_conv)
    ultimately show ?thesis using i(3) by simp
  qed
qed

theorem C6_one_entry_per_date_witness:
  "list_all oneEntryPerDate
      [\<lparr>teamId = ''t1'', name = ''Alpha Squad'', leader = ''L1'', books = None,
        booksHistory = Some (History [\<lparr>date = ''2024-01-01'', counts = [(''BB'', 1)]\<rparr>])\<rparr>]
   \<and> distinct (map fst [(''t1'', ''2024-01-01'', [(''BB'', 5 :: int)])])
   \<and> onUpdate ''2024-01-05''
      [\<lparr>teamId = ''t1'', name = ''Alpha Squad'', leader = ''L1'', books = None,
        booksHistory = Some (History [\<lparr>date = ''2024-01-01'', counts = [(''BB'', 1)]\<rparr>])\<rparr>]
      [(''t1'', ''2024-01-01'', [(''BB'', 5)])]
     = [\<lparr>teamId = ''t1'', name = ''Alpha Squad'', leader = ''L1'', books = Some [(''BB'', 5)],
         booksHistory = Some (History [\<lparr>date = ''2024-01-01'', counts = [(''BB'', 5)]\<rparr>])\<rparr>]
   \<and> onUpdate ''2024-01-05''
      [\<lparr>teamId = ''t1'', name = ''Alpha Squad'', leader = ''L1'', books = None,
        booksHistory = Some (History [\<lparr>date = ''2024-01-01'', counts = [(''BB'', 1)]\<rparr>])\<rparr>]
      [(''t1'', ''2024-01-02'', [(''BB'', 5)])]
     = [\<lparr>teamId = ''t1'', name = ''Alpha Squad'', leader = ''L1'', books = Some [(''BB'', 5)],
         booksHistory = Some (History [\<lparr>date = ''2024-01-01'', counts = [(''BB'', 1)]\<rparr>,
                                       \<lparr>date = ''2024-01-02'', counts = [(''BB'', 5)]\<rparr>])\<rparr>]
   \<and> list_all oneEntryPerDate (onUpdate ''2024-01-05''
      [\<lparr>teamId = ''t1'', name = ''Alpha Squad'', leader = ''L1'', books = None,
        booksHistory = Some (History [\<lparr>date = ''2024-01-01'', counts = [(''BB'', 1)]\<rparr>])\<rparr>]
      [(''t1'', ''2024-01-02'', [(''BB'', 5)])])
   \<and> ''2024-01-01'' \<in> date ` set [\<lparr>date = ''2024-01-01'', counts = [(''BB'', 1)]\<rparr>]
   \<and> ''2024-01-02'' \<notin> date ` set [\<lparr>date = ''2024-01-01'', counts = [(''BB'', 1)]\<rparr>]"
proof -
  let ?h = "[\<lparr>date = ''2024-01-01'', counts = [(''BB'', 1)]\<rparr>]"
  let ?t = "\<lparr>teamId = ''t1'', name = ''Alpha Squad'', leader = ''L1'', books = None,
        booksHistory = Some (History ?h)\<rparr>"
  let ?u1 = "[(''t1'', ''2024-01-01'', [(''BB'', 5 :: int)])]"
  let ?u2 = "[(''t1'', ''2024-01-02'', [(''BB'', 5 :: int)])]"
  have inv: "list_all oneEntryPerDate [?t]"
    by (simp add: oneEntryPerDate_def)
  have d1: "distinct (map fst ?u1)" and d2: "distinct (map fst ?u2)"
    by simp_all
  have fnd: "find (\<lambda>t. teamId t = teamId ([?t] ! 0)) [?t] = Some ?t"
    by simp
  have old: "''2024-01-01'' \<in> date ` set ?h" and new: "''2024-01-02'' \<notin> date ` set ?h"
    by simp_all
  note thm1 = C6_one_entry_per_date [of "[?t]" "''2024-01-05''" ?u1 ?t ?h "''2024-01-01''" "[(''BB'', 5)]"]
  note thm2 = C6_one_entry_per_date [of "[?t]" "''2024-01-05''" ?u2 ?t ?h "''2024-01-02''" "[(''BB'', 5)]"]
  have start: "startHistory ''2024-01-05'' ?t = ?h"
    using thm1 by simp
  have ups1: "upsertEntry ?h ''2024-01-01'' [(''BB'', 5)] = [\<lparr>date = ''2024-01-01'', counts = [(''BB'', 5)]\<rparr>]"
    by (simp add: upsertEntry_def)
  from thm2 new have ups2: "upsertEntry ?h ''2024-01-02'' [(''BB'', 5)]
      = ?h @ [\<lparr>date = ''2024-01-02'', counts = [(''BB'', 5)]\<rparr>]"
    by blast
  from thm1 d1 have len1: "length (onUpdate ''2024-01-05'' [?t] ?u1) = length [?t]"
    by blast
  from thm1 d1 fnd have "onUpdate ''2024-01-05'' [?t] ?u1 ! 0
      = ([?t] ! 0)\<lparr>booksHistory := Some (History (upsertEntry (startHistory ''2024-01-05'' ?t)
            ''2024-01-01'' [(''BB'', 5)])), books := Some [(''BB'', 5)]\<rparr>"
    by force
  with len1 have run1: "onUpdate ''2024-01-05'' [?t] ?u1
      = [\<lparr>teamId = ''t1'', name = ''Alpha Squad'', leader = ''L1'', books = Some [(''BB'', 5)],
         booksHistory = Some (History [\<lparr>date = ''2024-01-01'', counts = [(''BB'', 5)]\<rparr>])\<rparr>]"
    by (cases "onUpdate ''2024-01-05'' [?t] ?u1") (simp_all add: start ups1)
  from thm2 d2 have len2: "length (onUpdate ''2024-01-05'' [?t] ?u2) = length [?t]"
    by blast
  from thm2 d2 fnd have "onUpdate ''2024-01-05'' [?t] ?u2 ! 0
      = ([?t] ! 0)\<lparr>booksHistory := Some (History (upsertEntry (startHistory ''2024-01-05'' ?t)
            ''2024-01-02'' [(''BB'', 5)])), books := Some [(''BB'', 5)]\<rparr>"
    by force
  with len2 have run2: "onUpdate ''2024-01-05'' [?t] ?u2
      = [\<lparr>teamId = ''t1'', name = ''Alpha Squad'', leader = ''L1'', books = Some [(''BB'', 5)],
         booksHistory = Some (History [\<lparr>date = ''2024-01-01'', counts = [(''BB'', 1)]\<rparr>,
                                       \<lparr>date = ''2024-01-02'', counts = [(''BB'', 5)]\<rparr>])\<rparr>]"
    by (cases "onUpdate ''2024-01-05'' [?t] ?u2") (simp_all add: start ups2)
  from thm2 inv have after: "list_all oneEntryPerDate (onUpdate ''2024-01-05'' [?t] ?u2)"
    by blast
  from inv d1 run1 run2 after old new show ?thesis
    by (intro conjI)
qed

section \<open>Properties of the CSV export\<close>

lemma length_csvLines: "length (csvLines st) = length (getFilteredTeams st) + 1"
  by (simp add: csvLines_def csvRows_def)

lemma csvLines_header:
  "csvLines st ! 0 = ''Rank,Team Name,BV Leader,Bhagavatam,CC,MBB,BB,MB,SB,Total Books,Total Points''"
  by (simp add: csvLines_def headers_def)

lemma csvRows_nth:
  "i < length (getFilteredTeams st) \<Longrightarrow> csvRows st ! i = csvRow i (getFilteredTeams st ! i)"
  by (simp add: csvRows_def nth_enumerate_eq)

lemma csvLines_nth:
  "i < length (getFilteredTeams st) \<Longrightarrow>
   csvLines st ! (i + 1) = join '','' (csvRow i (getFilteredTeams st ! i))"
proof -
  assume i: "i < length (getFilteredTeams st)"
  have "length (csvRows st) = length (getFilteredTeams st)"
    by (simp add: csvRows_def)
  with i show ?thesis
    by (simp add: csvLines_def csvRows_nth)
qed

lemma digitChar_digit: "digitChar n \<in> set ''0123456789''"
  unfolding digitChar_def by (rule nth_mem) simp

lemma showNat_digits: "set (showNat n) \<subseteq> set ''0123456789''"
proof (induction n rule: showNat.induct)
  case (1 n)
  show ?case
  proof (cases "n < 10")
    case True
    then show ?thesis
      using digitChar_digit [of n] by (subst showNat.simps) simp
  next
    case False
    with 1 digitChar_digit [of "n mod 10"] show ?thesis
      by (subst showNat.simps) simp
  qed
qed

lemma showNat_not_Nil: "showNat n \<noteq> []"
  by (subst showNat.simps) simp

lemma toFixed2_shape:
  "\<exists>sgn ip d1 d2. toFixed2 x = sgn @ ip @ [CHR ''.'', d1, d2]
      \<and> (sgn = [] \<or> sgn = ''-'') \<and> ip \<noteq> [] \<and> set ip \<subseteq> set ''0123456789''
      \<and> d1 \<in> set ''0123456789'' \<and> d2 \<in> set ''0123456789''"
proof -
  define n where "n = nat \<lfloor>\<bar>x\<bar> * 100 + 1 / 2\<rfloor>"
  have "toFixed2 x = (if x < 0 then ''-'' else []) @ showNat (n div 100)
      @ [CHR ''.'', digitChar (n mod 100 div 10), digitChar (n mod 10)]"
    by (simp add: toFixed2_def n_def Let_def)
  moreover have "(if x < 0 then ''-'' else []) = [] \<or> (if x < 0 then ''-'' else []) = ''-''"
    by simp
  ultimately show ?thesis
    using showNat_not_Nil [of "n div 100"] showNat_digits [of "n div 100"]
      digitChar_digit [of "n mod 100 div 10"] digitChar_digit [of "n mod 10"]
    by blast
qed

text \<open>
  For the dated revision: the export has one line per filtered team after the header
  line, the first cell of row \<open>i\<close> (counted from 0) is \<open>i + 1\<close>, the position in
  the filtered and sorted sequence, and the last cell is the points with exactly two
  decimals.
\<close>

lemma exportToCSV_lines_and_ranks:
  "length (csvLines st) = length (getFilteredTeams st) + 1
   \<and> csvLines st ! 0
       = ''Rank,Team Name,BV Leader,Bhagavatam,CC,MBB,BB,MB,SB,Total Books,Total Points''
   \<and> exportToCSV st = join [CHR 0x0A] (csvLines st)
   \<and> (\<forall>i < length (getFilteredTeams st).
         csvLines st ! (i + 1) = join '','' (csvRows st ! i)
         \<and> length (csvRows st ! i) = 11
         \<and> csvRows st ! i ! 0 = showNat (i + 1)
         \<and> csvRows st ! i ! 10 = toFixed2 (totalPoints (getFilteredTeams st ! i))
         \<and> (\<exists>sgn ip d1 d2. csvRows st ! i ! 10 = sgn @ ip @ [CHR ''.'', d1, d2]
               \<and> (sgn = [] \<or> sgn = ''-'') \<and> ip \<noteq> [] \<and> set ip \<subseteq> set ''0123456789''
               \<and> d1 \<in> set ''0123456789'' \<and> d2 \<in> set ''0123456789''))"
proof (intro conjI allI impI)
  show "length (csvLines st) = length (getFilteredTeams st) + 1"
    by (rule length_csvLines)
  show "csvLines st ! 0
       = ''Rank,Team Name,BV Leader,Bhagavatam,CC,MBB,BB,MB,SB,Total Books,Total Points''"
    by (rule csvLines_header)
  show "exportToCSV st = join [CHR 0x0A] (csvLines st)"
    by (simp add: exportToCSV_def)
next
  fix i assume i: "i < length (getFilteredTeams st)"
  then have row: "csvRows st ! i = csvRow i (getFilteredTeams st ! i)"
    by (rule csvRows_nth)
  from i show "csvLines st ! (i + 1) = join '','' (csvRows st ! i)"
    by (simp only: csvLines_nth row)
  show "length (csvRows st ! i) = 11"
    by (simp add: row csvRow_def)
  show "csvRows st ! i ! 0 = showNat (i + 1)"
    by (simp add: row csvRow_def)
  show p: "csvRows st ! i ! 10 = toFixed2 (totalPoints (getFilteredTeams st ! i))"
    by (simp add: row csvRow_def)
  show "\<exists>sgn ip d1 d2. csvRows st ! i ! 10 = sgn @ ip @ [CHR ''.'', d1, d2]
               \<and> (sgn = [] \<or> sgn = ''-'') \<and> ip \<noteq> [] \<and> set ip \<subseteq> set ''0123456789''
               \<and> d1 \<in> set ''0123456789'' \<and> d2 \<in> set ''0123456789''"
    unfolding p by (rule toFixed2_shape)
qed

subsection \<open>Evaluating the number formats\<close>

lemma floor_rat_numeral_div:
  "\<lfloor>(numeral a :: rat) / numeral b\<rfloor> = numeral a div numeral b"
  using floor_divide_of_int_eq [of "numeral a" "numeral b", where ?'a = rat] by simp

lemma showNat_small: "n < 10 \<Longrightarrow> showNat n = [digitChar n]"
  by (subst showNat.simps) simp

lemma showNat_big: "\<not> n < 10 \<Longrightarrow> showNat n = showNat (n div 10) @ [digitChar (n mod 10)]"
  by (subst showNat.simps) simp

lemmas show_eval = showNat_small showNat_big showInt_def toFixed2_def numberToString_def
  digitChar_def Let_def floor_rat_numeral_div cellToString_def

text \<open>
  C4. \<^verbatim>\<open>exportToCSV\<close> of \<^verbatim>\<open>src/App.js\<close> does not export the filtered view. With two
  teams and the leader filter set to \<^verbatim>\<open>L2\<close> the filtered view has one team, but the
  file has the header and two data rows, in store order; the team of the filtered view
  has rank 2, and the points are printed as \<^verbatim>\<open>72\<close>. The dated revision exports the
  header and the one row \<^verbatim>\<open>1,Beta,L2,...,72.00\<close>.
\<close>

theorem C4_AppJs_export_ignores_filter:
  "length (getFilteredTeams
       \<lparr>teams =
          [\<lparr>teamId = ''t1'', name = ''Alpha'', leader = ''L1'',
            books = Some [(''Bhagavatam'', 0), (''CC'', 0), (''MBB'', 0), (''BB'', 1), (''MB'', 0), (''SB'', 0)],
            booksHistory = None\<rparr>,
           \<lparr>teamId = ''t2'', name = ''Beta'', leader = ''L2'',
            books = Some [(''Bhagavatam'', 1), (''CC'', 0), (''MBB'', 0), (''BB'', 0), (''MB'', 0), (''SB'', 0)],
            booksHistory = None\<rparr>],
        searchTerm = [], filterLeader = ''L2'', sortBy = ''points'', selectedDate = ''2024-01-01''\<rparr>) = 1
   \<and> csvLines_AppJs
       \<lparr>teams =
          [\<lparr>teamId = ''t1'', name = ''Alpha'', leader = ''L1'',
            books = Some [(''Bhagavatam'', 0), (''CC'', 0), (''MBB'', 0), (''BB'', 1), (''MB'', 0), (''SB'', 0)],
            booksHistory = None\<rparr>,
           \<lparr>teamId = ''t2'', name = ''Beta'', leader = ''L2'',
            books = Some [(''Bhagavatam'', 1), (''CC'', 0), (''MBB'', 0), (''BB'', 0), (''MB'', 0), (''SB'', 0)],
            booksHistory = None\<rparr>],
        searchTerm = [], filterLeader = ''L2'', sortBy = ''points'', selectedDate = ''2024-01-01''\<rparr>
     = Inr [''Rank,Team Name,BV Leader,Bhagavatam,CC,MBB,BB,MB,SB,Total Books,Total Points'',
            ''1,Alpha,L1,0,0,0,1,0,0,1,1'',
            ''2,Beta,L2,1,0,0,0,0,0,1,72'']
   \<and> csvLines
       \<lparr>teams =
          [\<lparr>teamId = ''t1'', name = ''Alpha'', leader = ''L1'',
            books = Some [(''Bhagavatam'', 0), (''CC'', 0), (''MBB'', 0), (''BB'', 1), (''MB'', 0), (''SB'', 0)],
            booksHistory = None\<rparr>,
           \<lparr>teamId = ''t2'', name = ''Beta'', leader = ''L2'',
            books = Some [(''Bhagavatam'', 1), (''CC'', 0), (''MBB'', 0), (''BB'', 0), (''MB'', 0), (''SB'', 0)],
            booksHistory = None\<rparr>],
        searchTerm = [], filterLeader = ''L2'', sortBy = ''points'', selectedDate = ''2024-01-01''\<rparr>
     = [''Rank,Team Name,BV Leader,Bhagavatam,CC,MBB,BB,MB,SB,Total Books,Total Points'',
        ''1,Beta,L2,1,0,0,0,0,0,18,72.00'']"
proof -
  let ?st = "\<lparr>teams =
          [\<lparr>teamId = ''t1'', name = ''Alpha'', leader = ''L1'',
            books = Some [(''Bhagavatam'', 0), (''CC'', 0), (''MBB'', 0), (''BB'', 1), (''MB'', 0), (''SB'', 0)],
            booksHistory = None\<rparr>,
           \<lparr>teamId = ''t2'', name = ''Beta'', leader = ''L2'',
            books = Some [(''Bhagavatam'', 1), (''CC'', 0), (''MBB'', 0), (''BB'', 0), (''MB'', 0), (''SB'', 0)],
            booksHistory = None\<rparr>],
        searchTerm = [], filterLeader = ''L2'', sortBy = ''points'', selectedDate = ''2024-01-01''\<rparr>"
  have gft: "getFilteredTeams ?st =
      [\<lparr>totalBooks = 18, totalPoints = 72,
        team = \<lparr>teamId = ''t2'', name = ''Beta'', leader = ''L2'',
            books = Some [(''Bhagavatam'', 1), (''CC'', 0), (''MBB'', 0), (''BB'', 0), (''MB'', 0), (''SB'', 0)],
            booksHistory = None\<rparr>,
        books' = [(''Bhagavatam'', 1), (''CC'', 0), (''MBB'', 0), (''BB'', 0), (''MB'', 0), (''SB'', 0)],
        booksHistory' = [\<lparr>date = ''2024-01-01'',
            counts = [(''Bhagavatam'', 1), (''CC'', 0), (''MBB'', 0), (''BB'', 0), (''MB'', 0), (''SB'', 0)]\<rparr>]\<rparr>]"
    by (simp add: getFilteredTeams_def getTeamsWithStats_def withStats_def booksDataOf_def
        calculateStats_def addCounts_unfold zeroStats_def orZero_def
        searchFilter_def leaderFilter_def sortTeams_def sortWith_def)
  have a: "length (getFilteredTeams ?st) = 1"
    by (simp only: gft list.size)
  have b: "csvLines_AppJs ?st
     = Inr [''Rank,Team Name,BV Leader,Bhagavatam,CC,MBB,BB,MB,SB,Total Books,Total Points'',
            ''1,Alpha,L1,0,0,0,1,0,0,1,1'',
            ''2,Beta,L2,1,0,0,0,0,0,1,72'']"
    by (simp add: csvLines_AppJs_def calculateStats_AppJs_def timesValue_def BOOK_VALUES_def
        orZero_def csvRow_AppJs_def bookCell_def booksOrEmpty_def headers_def show_eval)
  have c: "csvLines ?st
     = [''Rank,Team Name,BV Leader,Bhagavatam,CC,MBB,BB,MB,SB,Total Books,Total Points'',
        ''1,Beta,L2,1,0,0,0,0,0,18,72.00'']"
    unfolding csvLines_def csvRows_def gft
    by (simp add: csvRow_def headers_def orZero_def show_eval)
  from a b c show ?thesis
    by (intro conjI)
qed

end
